theory Spec2Isabelle
  imports Complex_Main "HOL-Library.AList"
begin

section \<open>Python values used by the ledger\<close>

subsection \<open>Float arithmetic\<close>

text \<open>
  Every amount and balance of the two bank programs is a Python \<^verbatim>\<open>float\<close>, an IEEE-754
  binary64 number. A finite float is a real number, and \<^verbatim>\<open>x + y\<close>, \<^verbatim>\<open>x - y\<close> return the
  exact result rounded to the nearest number with a 53-bit significand, ties going to the
  even significand. Comparisons are exact. This section and the two embeddings built on
  it take amounts as finite floats whose sums stay below \<open>2 ^ 1024\<close>; infinities, NaN
  and overflow are added in the section on every float.
\<close>

definition round_half_even :: "real \<Rightarrow> int" where
  "round_half_even x =
     (let f = \<lfloor>x\<rfloor>; d = x - of_int f
      in if d < 1 / 2 then f else if 1 / 2 < d then f + 1 else if even f then f else f + 1)"

text \<open>
  The exponent \<open>e\<close> of a positive number, \<open>2 ^ e \<le> x < 2 ^ (e + 1)\<close>, is found by halving
  or doubling; the number is then rounded to a multiple of \<open>2 ^ (e - 52)\<close>.
\<close>

definition pow2 :: "int \<Rightarrow> real" where
  "pow2 e = (if 0 \<le> e then 2 ^ nat e else 1 / 2 ^ nat (- e))"

function exponent_up :: "real \<Rightarrow> int" where
  "exponent_up x = (if 2 \<le> x then exponent_up (x / 2) + 1 else 0)"
  by pat_completeness auto
termination
proof (relation "measure (\<lambda>x. nat \<lceil>x\<rceil>)")
  show "wf (measure (\<lambda>x::real. nat \<lceil>x\<rceil>))" by simp
next
  fix x :: real
  assume x: "2 \<le> x"
  have "x / 2 \<le> x - 1" using x by simp
  then have "\<lceil>x / 2\<rceil> \<le> \<lceil>x - 1\<rceil>" by (rule ceiling_mono)
  also have "\<dots> = \<lceil>x\<rceil> - 1" by simp
  finally have "\<lceil>x / 2\<rceil> < \<lceil>x\<rceil>" by simp
  moreover have "0 < \<lceil>x\<rceil>" using x by (simp add: less_ceiling_iff)
  ultimately show "(x / 2, x) \<in> measure (\<lambda>x. nat \<lceil>x\<rceil>)" by simp
qed

function exponent_down :: "real \<Rightarrow> int" where
  "exponent_down x = (if 0 < x \<and> x < 1 then exponent_down (2 * x) - 1 else 0)"
  by pat_completeness auto
termination
proof (relation "measure (\<lambda>x. nat \<lceil>1 / x\<rceil>)")
  show "wf (measure (\<lambda>x::real. nat \<lceil>1 / x\<rceil>))" by simp
next
  fix x :: real
  assume x: "0 < x \<and> x < 1"
  define y where "y = 1 / x"
  have y: "1 < y" using x by (simp add: y_def)
  have c: "2 \<le> \<lceil>y\<rceil>" using y by (simp add: le_ceiling_iff)
  have half: "y / 2 \<le> of_int (\<lceil>y\<rceil> - 1)"
  proof (cases "y \<le> 2")
    case True
    then have "y / 2 \<le> 1" by simp
    also have "1 \<le> real_of_int (\<lceil>y\<rceil> - 1)" using c by simp
    finally show ?thesis .
  next
    case False
    then have "y / 2 \<le> y - 1" by simp
    also have "\<dots> \<le> real_of_int (\<lceil>y\<rceil> - 1)" by simp
    finally show ?thesis .
  qed
  have "\<lceil>y / 2\<rceil> \<le> \<lceil>y\<rceil> - 1" by (rule ceiling_le) (rule half)
  then have "\<lceil>y / 2\<rceil> < \<lceil>y\<rceil>" by simp
  moreover have "1 / (2 * x) = y / 2" by (simp add: y_def)
  moreover have "0 < \<lceil>y\<rceil>" using c by simp
  ultimately have "nat \<lceil>1 / (2 * x)\<rceil> < nat \<lceil>y\<rceil>" by (simp only: zless_nat_conj)
  then show "(2 * x, x) \<in> measure (\<lambda>x. nat \<lceil>1 / x\<rceil>)"
    unfolding y_def by (simp only: in_measure)
qed

declare exponent_up.simps [simp del] exponent_down.simps [simp del]

definition float_exponent :: "real \<Rightarrow> int" where
  "float_exponent x = (if 1 \<le> x then exponent_up x else exponent_down x)"

definition round_double :: "real \<Rightarrow> real" where
  "round_double x =
     (if x = 0 then 0
      else let e = float_exponent \<bar>x\<bar> - 52
           in of_int (round_half_even (x / pow2 e)) * pow2 e)"

definition float_add :: "real \<Rightarrow> real \<Rightarrow> real" where
  "float_add x y = round_double (x + y)"

definition float_sub :: "real \<Rightarrow> real \<Rightarrow> real" where
  "float_sub x y = round_double (x - y)"

subsection \<open>Integer formatting\<close>

text \<open>
  \<^verbatim>\<open>f"{n:04d}"\<close> and \<^verbatim>\<open>f"{n:06d}"\<close>: the decimal digits of \<open>n\<close>, padded with zeros on
  the left to the given width; a minus sign counts towards the width.
\<close>

definition digit_char :: "nat \<Rightarrow> char" where
  "digit_char d = ''0123456789'' ! (d mod 10)"

fun digits_of :: "nat \<Rightarrow> string" where
  "digits_of n = (if n < 10 then [digit_char n] else digits_of (n div 10) @ [digit_char (n mod 10)])"

declare digits_of.simps [simp del]

definition format_d :: "nat \<Rightarrow> int \<Rightarrow> string" where
  "format_d width n =
     (let ds = digits_of (nat \<bar>n\<bar>)
      in if n < 0 then CHR ''-'' # replicate (width - 1 - length ds) (CHR ''0'') @ ds
         else replicate (width - length ds) (CHR ''0'') @ ds)"

type_synonym datetime = string

section \<open>The bank with exceptions (day 6, bank\_with\_errors.py)\<close>

text \<open>
  Logging calls write to the log only and are left out. An operation that raises returns
  \<open>Inl\<close> of the exception together with the state it leaves behind, so that what a failed
  call did to the state is visible. \<^verbatim>\<open>datetime.now()\<close> is an input of the operation.
  Amounts are finite floats here; what the same code does with NaN, infinities and
  overflow is in the section on every float.
\<close>

datatype BankError =
    InsufficientFunds real real real
  | NegativeAmountError real string
  | AccountNotFoundError string
  | AccountInactiveError string

text \<open>\<^verbatim>\<open>InsufficientFundsError.__init__\<close>: balance, amount, and the shortfall it computes.\<close>

definition InsufficientFundsError :: "real \<Rightarrow> real \<Rightarrow> BankError" where
  "InsufficientFundsError bal amt = InsufficientFunds bal amt (float_sub amt bal)"

datatype TransactionType = DEPOSIT | WITHDRAWAL | TRANSFER

record Transaction =
  t_id :: string
  t_type :: TransactionType
  t_amount :: real
  t_balance_after :: real
  t_timestamp :: datetime
  t_description :: "string option"
  t_success :: bool

record BankAccount =
  account_id :: string
  owner :: string
  balance :: real
  is_active :: bool
  transactions :: "Transaction list"
  created_at :: datetime
  transaction_counter :: int

definition generate_transaction_id :: "BankAccount \<Rightarrow> string \<times> BankAccount" where
  "generate_transaction_id self =
     (let self' = self\<lparr>transaction_counter := transaction_counter self + 1\<rparr>
      in (account_id self' @ ''-TXN-'' @ format_d 4 (transaction_counter self'), self'))"

definition validate_active :: "BankAccount \<Rightarrow> BankError option" where
  "validate_active self =
     (if \<not> is_active self then Some (AccountInactiveError (account_id self)) else None)"

definition validate_amount :: "real \<Rightarrow> string \<Rightarrow> BankError option" where
  "validate_amount amt operation =
     (if amt \<le> 0 then Some (NegativeAmountError amt operation) else None)"

definition deposit ::
  "BankAccount \<Rightarrow> real \<Rightarrow> string option \<Rightarrow> datetime \<Rightarrow> (BankError + Transaction) \<times> BankAccount" where
  "deposit self amt descr now =
     (case validate_active self of Some e \<Rightarrow> (Inl e, self) | None \<Rightarrow>
      case validate_amount amt ''deposit'' of Some e \<Rightarrow> (Inl e, self) | None \<Rightarrow>
        let self1 = self\<lparr>balance := float_add (balance self) amt\<rparr>;
            (tid, self2) = generate_transaction_id self1;
            txn = \<lparr>t_id = tid, t_type = DEPOSIT, t_amount = amt,
                   t_balance_after = balance self2, t_timestamp = now,
                   t_description = descr, t_success = True\<rparr>;
            self3 = self2\<lparr>transactions := transactions self2 @ [txn]\<rparr>
        in (Inr txn, self3))"

definition withdraw ::
  "BankAccount \<Rightarrow> real \<Rightarrow> string option \<Rightarrow> datetime \<Rightarrow> (BankError + Transaction) \<times> BankAccount" where
  "withdraw self amt descr now =
     (case validate_active self of Some e \<Rightarrow> (Inl e, self) | None \<Rightarrow>
      case validate_amount amt ''withdrawal'' of Some e \<Rightarrow> (Inl e, self) | None \<Rightarrow>
        if amt > balance self then (Inl (InsufficientFundsError (balance self) amt), self)
        else
          let self1 = self\<lparr>balance := float_sub (balance self) amt\<rparr>;
              (tid, self2) = generate_transaction_id self1;
              txn = \<lparr>t_id = tid, t_type = WITHDRAWAL, t_amount = amt,
                     t_balance_after = balance self2, t_timestamp = now,
                     t_description = descr, t_success = True\<rparr>;
              self3 = self2\<lparr>transactions := transactions self2 @ [txn]\<rparr>
          in (Inr txn, self3))"

text \<open>
  The manager's dictionary, in insertion order. Every account object is created by
  \<^verbatim>\<open>create_account\<close> and referenced from one entry only, so the dictionary is the store
  of the account objects and the key is the object's address: \<open>put_account\<close> records the
  state of an object after a method has mutated it.
\<close>

record AccountManager =
  accounts :: "(string \<times> BankAccount) list"
  account_counter :: int

definition new_manager :: AccountManager where
  "new_manager = \<lparr>accounts = [], account_counter = 0\<rparr>"

definition put_account :: "AccountManager \<Rightarrow> string \<Rightarrow> BankAccount \<Rightarrow> AccountManager" where
  "put_account self aid a = self\<lparr>accounts := AList.update aid a (accounts self)\<rparr>"

definition generate_account_id :: "AccountManager \<Rightarrow> string \<times> AccountManager" where
  "generate_account_id self =
     (let self' = self\<lparr>account_counter := account_counter self + 1\<rparr>
      in (''ACC-'' @ format_d 6 (account_counter self'), self'))"

definition create_account ::
  "AccountManager \<Rightarrow> string \<Rightarrow> real \<Rightarrow> datetime \<Rightarrow> datetime
     \<Rightarrow> (BankError + BankAccount) \<times> AccountManager" where
  "create_account self owner_name initial_deposit now_account now_txn =
     (if initial_deposit < 0
      then (Inl (NegativeAmountError initial_deposit ''initial deposit''), self)
      else
        let (aid, self1) = generate_account_id self;
            account = \<lparr>account_id = aid, owner = owner_name, balance = initial_deposit,
                       is_active = True, transactions = [], created_at = now_account,
                       transaction_counter = 0\<rparr>;
            account' =
              (if initial_deposit > 0
               then account\<lparr>transactions := transactions account @
                      [\<lparr>t_id = aid @ ''-TXN-0000'', t_type = DEPOSIT,
                        t_amount = initial_deposit, t_balance_after = initial_deposit,
                        t_timestamp = now_txn, t_description = Some ''Initial deposit'',
                        t_success = True\<rparr>]\<rparr>
               else account)
        in (Inr account', put_account self1 aid account'))"

definition get_account :: "AccountManager \<Rightarrow> string \<Rightarrow> BankError + BankAccount" where
  "get_account self aid =
     (case map_of (accounts self) aid of
        None \<Rightarrow> Inl (AccountNotFoundError aid)
      | Some account \<Rightarrow> Inr account)"

text \<open>\<^verbatim>\<open>(f": {description}" if description else "")\<close>: \<^verbatim>\<open>None\<close> and the empty string are both false.\<close>

definition description_suffix :: "string option \<Rightarrow> string" where
  "description_suffix descr =
     (case descr of None \<Rightarrow> [] | Some d \<Rightarrow> if d = [] then [] else '': '' @ d)"

text \<open>
  \<^verbatim>\<open>from_account\<close> and \<^verbatim>\<open>to_account\<close> are the same object exactly when the two ids are
  equal; the deposit then acts on the account as the withdrawal left it.
\<close>

definition transfer ::
  "AccountManager \<Rightarrow> string \<Rightarrow> string \<Rightarrow> real \<Rightarrow> string option \<Rightarrow> datetime \<Rightarrow> datetime
     \<Rightarrow> (BankError + Transaction \<times> Transaction) \<times> AccountManager" where
  "transfer self from_id to_id amt descr now_w now_d =
     (case get_account self from_id of Inl e \<Rightarrow> (Inl e, self) | Inr from_account \<Rightarrow>
      case get_account self to_id of Inl e \<Rightarrow> (Inl e, self) | Inr to_account \<Rightarrow>
        let (w, from_account') =
              withdraw from_account amt
                (Some (''Transfer to '' @ to_id @ description_suffix descr)) now_w;
            self1 = put_account self from_id from_account'
        in case w of Inl e \<Rightarrow> (Inl e, self1) | Inr withdrawal \<Rightarrow>
          let to_object = (if to_id = from_id then from_account' else to_account);
              (d, to_account') =
                deposit to_object amt
                  (Some (''Transfer from '' @ from_id @ description_suffix descr)) now_d;
              self2 = put_account self1 to_id to_account'
          in case d of Inl e \<Rightarrow> (Inl e, self2) | Inr dep \<Rightarrow> (Inr (withdrawal, dep), self2))"

text \<open>
  What a caller can do to a ledger: create an account, call \<^verbatim>\<open>deposit\<close> or \<^verbatim>\<open>withdraw\<close>
  on a registered account object, transfer, and set \<^verbatim>\<open>is_active\<close> (as the demo does).
  A call that raises leaves the state it had reached.
\<close>

datatype ledger_op =
    CreateAccount string real datetime datetime
  | Deposit string real "string option" datetime
  | Withdraw string real "string option" datetime
  | Transfer string string real "string option" datetime datetime
  | SetActive string bool

fun step :: "AccountManager \<Rightarrow> ledger_op \<Rightarrow> AccountManager" where
  "step m (CreateAccount owner_name initial_deposit now_account now_txn) =
     snd (create_account m owner_name initial_deposit now_account now_txn)"
| "step m (Deposit aid amt descr now) =
     (case map_of (accounts m) aid of None \<Rightarrow> m
      | Some a \<Rightarrow> put_account m aid (snd (deposit a amt descr now)))"
| "step m (Withdraw aid amt descr now) =
     (case map_of (accounts m) aid of None \<Rightarrow> m
      | Some a \<Rightarrow> put_account m aid (snd (withdraw a amt descr now)))"
| "step m (Transfer from_id to_id amt descr now_w now_d) =
     snd (transfer m from_id to_id amt descr now_w now_d)"
| "step m (SetActive aid b) =
     (case map_of (accounts m) aid of None \<Rightarrow> m
      | Some a \<Rightarrow> put_account m aid (a\<lparr>is_active := b\<rparr>))"

definition run :: "ledger_op list \<Rightarrow> AccountManager" where
  "run ops = foldl step new_manager ops"

section \<open>The bank with exceptions on every float\<close>

text \<open>
  A caller can pass any \<^verbatim>\<open>float\<close>, also \<^verbatim>\<open>float('nan')\<close> and \<^verbatim>\<open>float('inf')\<close>, and a sum can
  overflow. This section embeds \<^verbatim>\<open>bank_with_errors.py\<close> a second time, over all floats;
  its names carry the prefix \<open>f_\<close> (\<open>F\<close> for the classes). The embedding above is this
  one restricted to finite amounts whose sums and differences stay below \<open>2 ^ 1024\<close>.
\<close>

subsection \<open>All floats\<close>

text \<open>
  A float is a finite number, an infinity or NaN (\<^verbatim>\<open>0.0\<close> and \<^verbatim>\<open>-0.0\<close>, which compare
  equal, are one value). A result is rounded as before; a rounded result of magnitude
  \<open>2 ^ 1024\<close> or more is an infinity. Every comparison with NaN is false, and
  \<^verbatim>\<open>inf - inf\<close> is NaN.
\<close>

datatype pyfloat = Finite real | PosInf | NegInf | NaN

definition float_of_real :: "real \<Rightarrow> pyfloat" where
  "float_of_real x =
     (let r = round_double x
      in if 2 ^ 1024 \<le> r then PosInf else if r \<le> - (2 ^ 1024) then NegInf else Finite r)"

fun py_add :: "pyfloat \<Rightarrow> pyfloat \<Rightarrow> pyfloat" where
  "py_add NaN y = NaN"
| "py_add x NaN = NaN"
| "py_add PosInf NegInf = NaN"
| "py_add NegInf PosInf = NaN"
| "py_add PosInf y = PosInf"
| "py_add x PosInf = PosInf"
| "py_add NegInf y = NegInf"
| "py_add x NegInf = NegInf"
| "py_add (Finite x) (Finite y) = float_of_real (x + y)"

fun py_sub :: "pyfloat \<Rightarrow> pyfloat \<Rightarrow> pyfloat" where
  "py_sub NaN y = NaN"
| "py_sub x NaN = NaN"
| "py_sub PosInf PosInf = NaN"
| "py_sub NegInf NegInf = NaN"
| "py_sub PosInf y = PosInf"
| "py_sub x PosInf = NegInf"
| "py_sub NegInf y = NegInf"
| "py_sub x NegInf = PosInf"
| "py_sub (Finite x) (Finite y) = float_of_real (x - y)"

text \<open>\<^verbatim>\<open>x <= y\<close>, \<^verbatim>\<open>x < y\<close> and \<^verbatim>\<open>x == y\<close>; \<^verbatim>\<open>x > y\<close> is \<^verbatim>\<open>y < x\<close>.\<close>

fun py_le :: "pyfloat \<Rightarrow> pyfloat \<Rightarrow> bool" where
  "py_le NaN y = False"
| "py_le x NaN = False"
| "py_le NegInf y = True"
| "py_le x PosInf = True"
| "py_le PosInf y = False"
| "py_le x NegInf = False"
| "py_le (Finite x) (Finite y) = (x \<le> y)"

fun py_lt :: "pyfloat \<Rightarrow> pyfloat \<Rightarrow> bool" where
  "py_lt NaN y = False"
| "py_lt x NaN = False"
| "py_lt PosInf y = False"
| "py_lt x NegInf = False"
| "py_lt NegInf y = True"
| "py_lt x PosInf = True"
| "py_lt (Finite x) (Finite y) = (x < y)"

definition py_eq :: "pyfloat \<Rightarrow> pyfloat \<Rightarrow> bool" where
  "py_eq x y \<longleftrightarrow> x \<noteq> NaN \<and> x = y"

definition is_finite :: "pyfloat \<Rightarrow> bool" where
  "is_finite x = (case x of Finite r \<Rightarrow> True | _ \<Rightarrow> False)"

subsection \<open>Accounts and the manager\<close>

datatype FBankError =
    F_InsufficientFunds pyfloat pyfloat pyfloat
  | F_NegativeAmountError pyfloat string
  | F_AccountNotFoundError string
  | F_AccountInactiveError string

definition F_InsufficientFundsError :: "pyfloat \<Rightarrow> pyfloat \<Rightarrow> FBankError" where
  "F_InsufficientFundsError bal amt = F_InsufficientFunds bal amt (py_sub amt bal)"

record FTransaction =
  ft_id :: string
  ft_type :: TransactionType
  ft_amount :: pyfloat
  ft_balance_after :: pyfloat
  ft_timestamp :: datetime
  ft_description :: "string option"
  ft_success :: bool

record FBankAccount =
  f_account_id :: string
  f_owner :: string
  f_balance :: pyfloat
  f_is_active :: bool
  f_transactions :: "FTransaction list"
  f_created_at :: datetime
  f_transaction_counter :: int

definition f_generate_transaction_id :: "FBankAccount \<Rightarrow> string \<times> FBankAccount" where
  "f_generate_transaction_id self =
     (let self' = self\<lparr>f_transaction_counter := f_transaction_counter self + 1\<rparr>
      in (f_account_id self' @ ''-TXN-'' @ format_d 4 (f_transaction_counter self'), self'))"

definition f_validate_active :: "FBankAccount \<Rightarrow> FBankError option" where
  "f_validate_active self =
     (if \<not> f_is_active self then Some (F_AccountInactiveError (f_account_id self)) else None)"

text \<open>\<^verbatim>\<open>if amount <= 0\<close>: false for NaN, which therefore passes.\<close>

definition f_validate_amount :: "pyfloat \<Rightarrow> string \<Rightarrow> FBankError option" where
  "f_validate_amount amt operation =
     (if py_le amt (Finite 0) then Some (F_NegativeAmountError amt operation) else None)"

definition f_deposit ::
  "FBankAccount \<Rightarrow> pyfloat \<Rightarrow> string option \<Rightarrow> datetime \<Rightarrow> (FBankError + FTransaction) \<times> FBankAccount" where
  "f_deposit self amt descr now =
     (case f_validate_active self of Some e \<Rightarrow> (Inl e, self) | None \<Rightarrow>
      case f_validate_amount amt ''deposit'' of Some e \<Rightarrow> (Inl e, self) | None \<Rightarrow>
        let self1 = self\<lparr>f_balance := py_add (f_balance self) amt\<rparr>;
            (tid, self2) = f_generate_transaction_id self1;
            txn = \<lparr>ft_id = tid, ft_type = DEPOSIT, ft_amount = amt,
                   ft_balance_after = f_balance self2, ft_timestamp = now,
                   ft_description = descr, ft_success = True\<rparr>;
            self3 = self2\<lparr>f_transactions := f_transactions self2 @ [txn]\<rparr>
        in (Inr txn, self3))"

definition f_withdraw ::
  "FBankAccount \<Rightarrow> pyfloat \<Rightarrow> string option \<Rightarrow> datetime \<Rightarrow> (FBankError + FTransaction) \<times> FBankAccount" where
  "f_withdraw self amt descr now =
     (case f_validate_active self of Some e \<Rightarrow> (Inl e, self) | None \<Rightarrow>
      case f_validate_amount amt ''withdrawal'' of Some e \<Rightarrow> (Inl e, self) | None \<Rightarrow>
        if py_lt (f_balance self) amt
        then (Inl (F_InsufficientFundsError (f_balance self) amt), self)
        else
          let self1 = self\<lparr>f_balance := py_sub (f_balance self) amt\<rparr>;
              (tid, self2) = f_generate_transaction_id self1;
              txn = \<lparr>ft_id = tid, ft_type = WITHDRAWAL, ft_amount = amt,
                     ft_balance_after = f_balance self2, ft_timestamp = now,
                     ft_description = descr, ft_success = True\<rparr>;
              self3 = self2\<lparr>f_transactions := f_transactions self2 @ [txn]\<rparr>
          in (Inr txn, self3))"

record FAccountManager =
  f_accounts :: "(string \<times> FBankAccount) list"
  f_account_counter :: int

definition f_new_manager :: FAccountManager where
  "f_new_manager = \<lparr>f_accounts = [], f_account_counter = 0\<rparr>"

definition f_put_account :: "FAccountManager \<Rightarrow> string \<Rightarrow> FBankAccount \<Rightarrow> FAccountManager" where
  "f_put_account self aid a = self\<lparr>f_accounts := AList.update aid a (f_accounts self)\<rparr>"

definition f_generate_account_id :: "FAccountManager \<Rightarrow> string \<times> FAccountManager" where
  "f_generate_account_id self =
     (let self' = self\<lparr>f_account_counter := f_account_counter self + 1\<rparr>
      in (''ACC-'' @ format_d 6 (f_account_counter self'), self'))"

text \<open>\<^verbatim>\<open>if initial_deposit < 0\<close> and \<^verbatim>\<open>if initial_deposit > 0\<close> are both false for NaN.\<close>

definition f_create_account ::
  "FAccountManager \<Rightarrow> string \<Rightarrow> pyfloat \<Rightarrow> datetime \<Rightarrow> datetime
     \<Rightarrow> (FBankError + FBankAccount) \<times> FAccountManager" where
  "f_create_account self owner_name initial_deposit now_account now_txn =
     (if py_lt initial_deposit (Finite 0)
      then (Inl (F_NegativeAmountError initial_deposit ''initial deposit''), self)
      else
        let (aid, self1) = f_generate_account_id self;
            account = \<lparr>f_account_id = aid, f_owner = owner_name, f_balance = initial_deposit,
                       f_is_active = True, f_transactions = [], f_created_at = now_account,
                       f_transaction_counter = 0\<rparr>;
            account' =
              (if py_lt (Finite 0) initial_deposit
               then account\<lparr>f_transactions := f_transactions account @
                      [\<lparr>ft_id = aid @ ''-TXN-0000'', ft_type = DEPOSIT,
                        ft_amount = initial_deposit, ft_balance_after = initial_deposit,
                        ft_timestamp = now_txn, ft_description = Some ''Initial deposit'',
                        ft_success = True\<rparr>]\<rparr>
               else account)
        in (Inr account', f_put_account self1 aid account'))"

definition f_get_account :: "FAccountManager \<Rightarrow> string \<Rightarrow> FBankError + FBankAccount" where
  "f_get_account self aid =
     (case map_of (f_accounts self) aid of
        None \<Rightarrow> Inl (F_AccountNotFoundError aid)
      | Some account \<Rightarrow> Inr account)"

definition f_transfer ::
  "FAccountManager \<Rightarrow> string \<Rightarrow> string \<Rightarrow> pyfloat \<Rightarrow> string option \<Rightarrow> datetime \<Rightarrow> datetime
     \<Rightarrow> (FBankError + FTransaction \<times> FTransaction) \<times> FAccountManager" where
  "f_transfer self from_id to_id amt descr now_w now_d =
     (case f_get_account self from_id of Inl e \<Rightarrow> (Inl e, self) | Inr from_account \<Rightarrow>
      case f_get_account self to_id of Inl e \<Rightarrow> (Inl e, self) | Inr to_account \<Rightarrow>
        let (w, from_account') =
              f_withdraw from_account amt
                (Some (''Transfer to '' @ to_id @ description_suffix descr)) now_w;
            self1 = f_put_account self from_id from_account'
        in case w of Inl e \<Rightarrow> (Inl e, self1) | Inr withdrawal \<Rightarrow>
          let to_object = (if to_id = from_id then from_account' else to_account);
              (d, to_account') =
                f_deposit to_object amt
                  (Some (''Transfer from '' @ from_id @ description_suffix descr)) now_d;
              self2 = f_put_account self1 to_id to_account'
          in case d of Inl e \<Rightarrow> (Inl e, self2) | Inr dep \<Rightarrow> (Inr (withdrawal, dep), self2))"

datatype f_ledger_op =
    FCreateAccount string pyfloat datetime datetime
  | FDeposit string pyfloat "string option" datetime
  | FWithdraw string pyfloat "string option" datetime
  | FTransfer string string pyfloat "string option" datetime datetime
  | FSetActive string bool

fun f_step :: "FAccountManager \<Rightarrow> f_ledger_op \<Rightarrow> FAccountManager" where
  "f_step m (FCreateAccount owner_name initial_deposit now_account now_txn) =
     snd (f_create_account m owner_name initial_deposit now_account now_txn)"
| "f_step m (FDeposit aid amt descr now) =
     (case map_of (f_accounts m) aid of None \<Rightarrow> m
      | Some a \<Rightarrow> f_put_account m aid (snd (f_deposit a amt descr now)))"
| "f_step m (FWithdraw aid amt descr now) =
     (case map_of (f_accounts m) aid of None \<Rightarrow> m
      | Some a \<Rightarrow> f_put_account m aid (snd (f_withdraw a amt descr now)))"
| "f_step m (FTransfer from_id to_id amt descr now_w now_d) =
     snd (f_transfer m from_id to_id amt descr now_w now_d)"
| "f_step m (FSetActive aid b) =
     (case map_of (f_accounts m) aid of None \<Rightarrow> m
      | Some a \<Rightarrow> f_put_account m aid (a\<lparr>f_is_active := b\<rparr>))"

definition f_run :: "f_ledger_op list \<Rightarrow> FAccountManager" where
  "f_run ops = foldl f_step f_new_manager ops"

text \<open>The amount an operation is called with, and whether it is a finite number.\<close>

fun finite_amount :: "f_ledger_op \<Rightarrow> bool" where
  "finite_amount (FCreateAccount owner_name initial_deposit now_account now_txn) =
     is_finite initial_deposit"
| "finite_amount (FDeposit aid amt descr now) = is_finite amt"
| "finite_amount (FWithdraw aid amt descr now) = is_finite amt"
| "finite_amount (FTransfer from_id to_id amt descr now_w now_d) = is_finite amt"
| "finite_amount (FSetActive aid b) = True"

text \<open>
  The balance agrees with the log, with Python's comparisons: \<^verbatim>\<open>balance ==\<close> the
  \<^verbatim>\<open>balance_after\<close> of the last transaction, or \<^verbatim>\<open>== 0\<close> when the log is empty, and
  \<^verbatim>\<open>balance >= 0\<close>.
\<close>

definition f_balance_agrees :: "FBankAccount \<Rightarrow> bool" where
  "f_balance_agrees a \<longleftrightarrow>
     py_eq (f_balance a)
       (if f_transactions a = [] then Finite 0 else ft_balance_after (last (f_transactions a))) \<and>
     py_le (Finite 0) (f_balance a)"

subsection \<open>Example ledgers with non-finite amounts\<close>

text \<open>
  Alice opens with 1000 and Eve with \<^verbatim>\<open>float('nan')\<close>; then Alice's account is asked to
  withdraw \<^verbatim>\<open>float('nan')\<close>. The second list is the demo again: Alice, Bob and the transfer.
\<close>

definition nan_ops :: "f_ledger_op list" where
  "nan_ops =
     [FCreateAccount ''Alice'' (Finite 1000) ''2024-01-01T09:00:00'' ''2024-01-01T09:00:01'',
      FCreateAccount ''Eve'' NaN ''2024-01-01T09:05:00'' ''2024-01-01T09:05:01'',
      FWithdraw ''ACC-000001'' NaN None ''2024-01-02T10:00:00'']"

definition f_alice_nan :: FBankAccount where
  "f_alice_nan =
     \<lparr>f_account_id = ''ACC-000001'', f_owner = ''Alice'', f_balance = NaN, f_is_active = True,
      f_transactions =
        [\<lparr>ft_id = ''ACC-000001-TXN-0000'', ft_type = DEPOSIT, ft_amount = Finite 1000,
          ft_balance_after = Finite 1000, ft_timestamp = ''2024-01-01T09:00:01'',
          ft_description = Some ''Initial deposit'', ft_success = True\<rparr>,
         \<lparr>ft_id = ''ACC-000001-TXN-0001'', ft_type = WITHDRAWAL, ft_amount = NaN,
          ft_balance_after = NaN, ft_timestamp = ''2024-01-02T10:00:00'',
          ft_description = None, ft_success = True\<rparr>],
      f_created_at = ''2024-01-01T09:00:00'', f_transaction_counter = 1\<rparr>"

definition f_eve :: FBankAccount where
  "f_eve =
     \<lparr>f_account_id = ''ACC-000002'', f_owner = ''Eve'', f_balance = NaN, f_is_active = True,
      f_transactions = [], f_created_at = ''2024-01-01T09:05:00'', f_transaction_counter = 0\<rparr>"

definition f_transfer_ops :: "f_ledger_op list" where
  "f_transfer_ops =
     [FCreateAccount ''Alice'' (Finite 1000) ''2024-01-01T09:00:00'' ''2024-01-01T09:00:01'',
      FCreateAccount ''Bob'' (Finite 500) ''2024-01-01T09:05:00'' ''2024-01-01T09:05:01'',
      FTransfer ''ACC-000001'' ''ACC-000002'' (Finite 200) (Some ''Rent payment'')
        ''2024-01-03T12:00:00'' ''2024-01-03T12:00:01'']"

definition f_alice_800 :: FBankAccount where
  "f_alice_800 =
     \<lparr>f_account_id = ''ACC-000001'', f_owner = ''Alice'', f_balance = Finite 800,
      f_is_active = True,
      f_transactions =
        [\<lparr>ft_id = ''ACC-000001-TXN-0000'', ft_type = DEPOSIT, ft_amount = Finite 1000,
          ft_balance_after = Finite 1000, ft_timestamp = ''2024-01-01T09:00:01'',
          ft_description = Some ''Initial deposit'', ft_success = True\<rparr>,
         \<lparr>ft_id = ''ACC-000001-TXN-0001'', ft_type = WITHDRAWAL, ft_amount = Finite 200,
          ft_balance_after = Finite 800, ft_timestamp = ''2024-01-03T12:00:00'',
          ft_description = Some ''Transfer to ACC-000002: Rent payment'', ft_success = True\<rparr>],
      f_created_at = ''2024-01-01T09:00:00'', f_transaction_counter = 1\<rparr>"

text \<open>Alice opens with 1000, deposits \<^verbatim>\<open>float('inf')\<close> and then withdraws \<^verbatim>\<open>float('inf')\<close>.\<close>

definition inf_ops :: "f_ledger_op list" where
  "inf_ops =
     [FCreateAccount ''Alice'' (Finite 1000) ''2024-01-01T09:00:00'' ''2024-01-01T09:00:01'',
      FDeposit ''ACC-000001'' PosInf None ''2024-01-02T10:00:00'',
      FWithdraw ''ACC-000001'' PosInf None ''2024-01-02T11:00:00'']"

definition f_alice_inf :: FBankAccount where
  "f_alice_inf =
     \<lparr>f_account_id = ''ACC-000001'', f_owner = ''Alice'', f_balance = NaN, f_is_active = True,
      f_transactions =
        [\<lparr>ft_id = ''ACC-000001-TXN-0000'', ft_type = DEPOSIT, ft_amount = Finite 1000,
          ft_balance_after = Finite 1000, ft_timestamp = ''2024-01-01T09:00:01'',
          ft_description = Some ''Initial deposit'', ft_success = True\<rparr>,
         \<lparr>ft_id = ''ACC-000001-TXN-0001'', ft_type = DEPOSIT, ft_amount = PosInf,
          ft_balance_after = PosInf, ft_timestamp = ''2024-01-02T10:00:00'',
          ft_description = None, ft_success = True\<rparr>,
         \<lparr>ft_id = ''ACC-000001-TXN-0002'', ft_type = WITHDRAWAL, ft_amount = PosInf,
          ft_balance_after = NaN, ft_timestamp = ''2024-01-02T11:00:00'',
          ft_description = None, ft_success = True\<rparr>],
      f_created_at = ''2024-01-01T09:00:00'', f_transaction_counter = 2\<rparr>"

subsection \<open>From the finite embedding to this one\<close>

definition lift_error :: "BankError \<Rightarrow> FBankError" where
  "lift_error e =
     (case e of
        InsufficientFunds bal amt short \<Rightarrow> F_InsufficientFunds (Finite bal) (Finite amt) (Finite short)
      | NegativeAmountError amt operation \<Rightarrow> F_NegativeAmountError (Finite amt) operation
      | AccountNotFoundError aid \<Rightarrow> F_AccountNotFoundError aid
      | AccountInactiveError aid \<Rightarrow> F_AccountInactiveError aid)"

definition lift_transaction :: "Transaction \<Rightarrow> FTransaction" where
  "lift_transaction t =
     \<lparr>ft_id = t_id t, ft_type = t_type t, ft_amount = Finite (t_amount t),
      ft_balance_after = Finite (t_balance_after t), ft_timestamp = t_timestamp t,
      ft_description = t_description t, ft_success = t_success t\<rparr>"

definition lift_account :: "BankAccount \<Rightarrow> FBankAccount" where
  "lift_account a =
     \<lparr>f_account_id = account_id a, f_owner = owner a, f_balance = Finite (balance a),
      f_is_active = is_active a, f_transactions = map lift_transaction (transactions a),
      f_created_at = created_at a, f_transaction_counter = transaction_counter a\<rparr>"

section \<open>The persistent bank (day 7, persistent\_bank.py)\<close>

text \<open>
  The second bank has its own classes under the same names; here they carry the prefix
  \<open>P\<close> or \<open>p_\<close> (classes, fields and account methods) and \<open>pm_\<close> (manager methods).
  Its accounts have no \<^verbatim>\<open>is_active\<close> flag, and timestamps are ISO-8601 strings.
\<close>

subsection \<open>JSON documents and the data file\<close>

text \<open>
  What \<^verbatim>\<open>json.load\<close> returns and \<^verbatim>\<open>json.dump\<close> accepts. A Python dict is the list of its
  items in insertion order. \<^verbatim>\<open>json.dump\<close> followed by \<^verbatim>\<open>json.load\<close> gives back the document
  it was given (strings, integers, finite floats, lists, and dicts with string keys), so a
  file that holds JSON text is modelled by the document the text denotes.
\<close>

datatype json =
    JNull
  | JBool bool
  | JInt int
  | JFloat real
  | JString string
  | JArray "json list"
  | JObject "(string \<times> json) list"

text \<open>
  A path names no file, or something that \<^verbatim>\<open>open\<close> refuses (a directory, a file without
  permission), or a file with text: text that is not JSON, or the text of a document.
\<close>

datatype file_state = NoFile | NotOpenable | Content "json option"

type_synonym filesystem = "string \<Rightarrow> file_state"

datatype PError =
    P_InsufficientFundsError real real
  | P_NegativeAmountError real
  | P_AccountNotFoundError string
  | OSError
  | JSONDecodeError
  | KeyError string
  | ValueError
  | TypeError
  | AttributeError

datatype PTransactionType = P_DEPOSIT | P_WITHDRAWAL

definition type_value :: "PTransactionType \<Rightarrow> string" where
  "type_value t = (case t of P_DEPOSIT \<Rightarrow> ''DEPOSIT'' | P_WITHDRAWAL \<Rightarrow> ''WITHDRAWAL'')"

text \<open>\<^verbatim>\<open>TransactionType(value)\<close>: the member with that value, or \<^verbatim>\<open>ValueError\<close>.\<close>

definition TransactionType_of :: "json \<Rightarrow> PError + PTransactionType" where
  "TransactionType_of v =
     (if v = JString ''DEPOSIT'' then Inr P_DEPOSIT
      else if v = JString ''WITHDRAWAL'' then Inr P_WITHDRAWAL
      else Inl ValueError)"

record PTransaction =
  pt_id :: string
  pt_type :: PTransactionType
  pt_amount :: real
  pt_balance_after :: real
  pt_timestamp :: string
  pt_description :: "string option"

record PBankAccount =
  p_account_id :: string
  p_owner :: string
  p_balance :: real
  p_transactions :: "PTransaction list"
  p_created_at :: string
  p_transaction_counter :: int

text \<open>
  Reading a document. \<^verbatim>\<open>data[key]\<close> raises \<^verbatim>\<open>KeyError\<close> when the key is missing;
  \<^verbatim>\<open>data.get(key)\<close> gives \<^verbatim>\<open>None\<close> instead. Python stores whatever value it finds; the
  fields of the records are typed, so a value of another shape than the field's is
  answered with \<^verbatim>\<open>TypeError\<close> here, at the place where it is read.
\<close>

definition and_then :: "'e + 'a \<Rightarrow> ('a \<Rightarrow> 'e + 'b) \<Rightarrow> 'e + 'b" where
  "and_then r f = (case r of Inl e \<Rightarrow> Inl e | Inr x \<Rightarrow> f x)"

definition subscript :: "json \<Rightarrow> string \<Rightarrow> PError + json" where
  "subscript data key =
     (case data of
        JObject items \<Rightarrow> (case map_of items key of None \<Rightarrow> Inl (KeyError key) | Some v \<Rightarrow> Inr v)
      | _ \<Rightarrow> Inl TypeError)"

definition get_item :: "json \<Rightarrow> string \<Rightarrow> PError + json option" where
  "get_item data key =
     (case data of JObject items \<Rightarrow> Inr (map_of items key) | _ \<Rightarrow> Inl AttributeError)"

definition as_str :: "json \<Rightarrow> PError + string" where
  "as_str v = (case v of JString s \<Rightarrow> Inr s | _ \<Rightarrow> Inl TypeError)"

definition as_float :: "json \<Rightarrow> PError + real" where
  "as_float v = (case v of JFloat x \<Rightarrow> Inr x | JInt i \<Rightarrow> Inr (of_int i) | _ \<Rightarrow> Inl TypeError)"

definition as_int :: "json \<Rightarrow> PError + int" where
  "as_int v = (case v of JInt i \<Rightarrow> Inr i | _ \<Rightarrow> Inl TypeError)"

definition as_optional_str :: "json option \<Rightarrow> PError + string option" where
  "as_optional_str v =
     (case v of None \<Rightarrow> Inr None | Some JNull \<Rightarrow> Inr None | Some (JString s) \<Rightarrow> Inr (Some s)
      | Some _ \<Rightarrow> Inl TypeError)"

text \<open>A comprehension whose body may raise: the first exception ends it.\<close>

fun map_result :: "('a \<Rightarrow> 'e + 'b) \<Rightarrow> 'a list \<Rightarrow> 'e + 'b list" where
  "map_result f [] = Inr []"
| "map_result f (x # xs) =
     and_then (f x) (\<lambda>y. and_then (map_result f xs) (\<lambda>ys. Inr (y # ys)))"

subsection \<open>Transactions and accounts\<close>

definition transaction_to_dict :: "PTransaction \<Rightarrow> json" where
  "transaction_to_dict self =
     JObject [(''id'', JString (pt_id self)),
              (''type'', JString (type_value (pt_type self))),
              (''amount'', JFloat (pt_amount self)),
              (''balance_after'', JFloat (pt_balance_after self)),
              (''timestamp'', JString (pt_timestamp self)),
              (''description'', case pt_description self of None \<Rightarrow> JNull | Some d \<Rightarrow> JString d)]"

definition transaction_from_dict :: "json \<Rightarrow> PError + PTransaction" where
  "transaction_from_dict data =
     and_then (and_then (subscript data ''id'') as_str) (\<lambda>i.
     and_then (and_then (subscript data ''type'') TransactionType_of) (\<lambda>ty.
     and_then (and_then (subscript data ''amount'') as_float) (\<lambda>amt.
     and_then (and_then (subscript data ''balance_after'') as_float) (\<lambda>bal.
     and_then (and_then (subscript data ''timestamp'') as_str) (\<lambda>ts.
     and_then (and_then (get_item data ''description'') as_optional_str) (\<lambda>descr.
       Inr \<lparr>pt_id = i, pt_type = ty, pt_amount = amt, pt_balance_after = bal,
            pt_timestamp = ts, pt_description = descr\<rparr>))))))"

definition p_generate_transaction_id :: "PBankAccount \<Rightarrow> string \<times> PBankAccount" where
  "p_generate_transaction_id self =
     (let self' = self\<lparr>p_transaction_counter := p_transaction_counter self + 1\<rparr>
      in (p_account_id self' @ ''-TXN-'' @ format_d 4 (p_transaction_counter self'), self'))"

definition p_deposit ::
  "PBankAccount \<Rightarrow> real \<Rightarrow> string option \<Rightarrow> string \<Rightarrow> (PError + PTransaction) \<times> PBankAccount" where
  "p_deposit self amt descr now =
     (if amt \<le> 0 then (Inl (P_NegativeAmountError amt), self)
      else
        let self1 = self\<lparr>p_balance := float_add (p_balance self) amt\<rparr>;
            (tid, self2) = p_generate_transaction_id self1;
            txn = \<lparr>pt_id = tid, pt_type = P_DEPOSIT, pt_amount = amt,
                   pt_balance_after = p_balance self2, pt_timestamp = now,
                   pt_description = descr\<rparr>;
            self3 = self2\<lparr>p_transactions := p_transactions self2 @ [txn]\<rparr>
        in (Inr txn, self3))"

definition p_withdraw ::
  "PBankAccount \<Rightarrow> real \<Rightarrow> string option \<Rightarrow> string \<Rightarrow> (PError + PTransaction) \<times> PBankAccount" where
  "p_withdraw self amt descr now =
     (if amt \<le> 0 then (Inl (P_NegativeAmountError amt), self)
      else if amt > p_balance self
      then (Inl (P_InsufficientFundsError (p_balance self) amt), self)
      else
        let self1 = self\<lparr>p_balance := float_sub (p_balance self) amt\<rparr>;
            (tid, self2) = p_generate_transaction_id self1;
            txn = \<lparr>pt_id = tid, pt_type = P_WITHDRAWAL, pt_amount = amt,
                   pt_balance_after = p_balance self2, pt_timestamp = now,
                   pt_description = descr\<rparr>;
            self3 = self2\<lparr>p_transactions := p_transactions self2 @ [txn]\<rparr>
        in (Inr txn, self3))"

definition account_to_dict :: "PBankAccount \<Rightarrow> json" where
  "account_to_dict self =
     JObject [(''account_id'', JString (p_account_id self)),
              (''owner'', JString (p_owner self)),
              (''balance'', JFloat (p_balance self)),
              (''transactions'', JArray (map transaction_to_dict (p_transactions self))),
              (''created_at'', JString (p_created_at self)),
              (''_transaction_counter'', JInt (p_transaction_counter self))]"

definition as_list :: "json \<Rightarrow> PError + json list" where
  "as_list v = (case v of JArray xs \<Rightarrow> Inr xs | _ \<Rightarrow> Inl TypeError)"

definition account_from_dict :: "json \<Rightarrow> PError + PBankAccount" where
  "account_from_dict data =
     and_then (and_then (subscript data ''account_id'') as_str) (\<lambda>aid.
     and_then (and_then (subscript data ''owner'') as_str) (\<lambda>own.
     and_then (and_then (subscript data ''balance'') as_float) (\<lambda>bal.
     and_then (and_then (and_then (subscript data ''transactions'') as_list)
             (map_result transaction_from_dict)) (\<lambda>txns.
     and_then (and_then (subscript data ''created_at'') as_str) (\<lambda>created.
       let account = \<lparr>p_account_id = aid, p_owner = own, p_balance = bal,
                        p_transactions = txns, p_created_at = created,
                        p_transaction_counter = 0\<rparr>
       in and_then (get_item data ''_transaction_counter'') (\<lambda>c.
          and_then (case c of None \<Rightarrow> Inr (int (length (p_transactions account)))
                | Some v \<Rightarrow> as_int v) (\<lambda>n.
            Inr (account\<lparr>p_transaction_counter := n\<rparr>))))))))"

subsection \<open>The manager and its data file\<close>

record PAccountManager =
  p_accounts :: "(string \<times> PBankAccount) list"
  p_data_file :: string
  p_account_counter :: int

definition pm_save_to_file :: "PAccountManager \<Rightarrow> filesystem \<Rightarrow> (PError + unit) \<times> filesystem" where
  "pm_save_to_file self fs =
     (let data = JObject
            [(''accounts'', JObject (map (\<lambda>(aid, acc). (aid, account_to_dict acc)) (p_accounts self))),
             (''_account_counter'', JInt (p_account_counter self))]
      in if fs (p_data_file self) = NotOpenable then (Inl OSError, fs)
         else (Inr (), fs(p_data_file self := Content (Some data))))"

definition as_items :: "json \<Rightarrow> PError + (string \<times> json) list" where
  "as_items v = (case v of JObject items \<Rightarrow> Inr items | _ \<Rightarrow> Inl AttributeError)"

definition pm_load_from_file ::
  "PAccountManager \<Rightarrow> filesystem \<Rightarrow> (PError + unit) \<times> PAccountManager" where
  "pm_load_from_file self fs =
     (case fs (p_data_file self) of
        NoFile \<Rightarrow> (Inr (), self)
      | NotOpenable \<Rightarrow> (Inl OSError, self)
      | Content None \<Rightarrow> (Inl JSONDecodeError, self)
      | Content (Some data) \<Rightarrow>
          (case and_then (and_then (get_item data ''accounts'')
                        (\<lambda>v. case v of None \<Rightarrow> Inr [] | Some d \<Rightarrow> as_items d))
                  (map_result (\<lambda>(aid, acc_data).
                     and_then (account_from_dict acc_data) (\<lambda>acc. Inr (aid, acc)))) of
             Inl e \<Rightarrow> (Inl e, self)
           | Inr accs \<Rightarrow>
               let self1 = self\<lparr>p_accounts := accs\<rparr>
               in (case and_then (get_item data ''_account_counter'')
                         (\<lambda>c. case c of None \<Rightarrow> Inr (int (length (p_accounts self1)))
                              | Some v \<Rightarrow> as_int v) of
                     Inl e \<Rightarrow> (Inl e, self1)
                   | Inr n \<Rightarrow> (Inr (), self1\<lparr>p_account_counter := n\<rparr>))))"

text \<open>
  \<^verbatim>\<open>AccountManager(data_file=path)\<close>: the fields take their defaults, then
  \<^verbatim>\<open>__post_init__\<close> loads the file if the path exists. An exception leaves no manager.
\<close>

definition new_AccountManager :: "string \<Rightarrow> filesystem \<Rightarrow> PError + PAccountManager" where
  "new_AccountManager path fs =
     (let self = \<lparr>p_accounts = [], p_data_file = path, p_account_counter = 0\<rparr>
      in if fs path \<noteq> NoFile
         then (case pm_load_from_file self fs of
                 (Inl e, _) \<Rightarrow> Inl e
               | (Inr _, self') \<Rightarrow> Inr self')
         else Inr self)"

definition pm_generate_account_id :: "PAccountManager \<Rightarrow> string \<times> PAccountManager" where
  "pm_generate_account_id self =
     (let self' = self\<lparr>p_account_counter := p_account_counter self + 1\<rparr>
      in (''ACC-'' @ format_d 6 (p_account_counter self'), self'))"

definition pm_put_account :: "PAccountManager \<Rightarrow> string \<Rightarrow> PBankAccount \<Rightarrow> PAccountManager" where
  "pm_put_account self aid a = self\<lparr>p_accounts := AList.update aid a (p_accounts self)\<rparr>"

definition pm_create_account ::
  "PAccountManager \<Rightarrow> string \<Rightarrow> real \<Rightarrow> string \<Rightarrow> string \<Rightarrow> filesystem
     \<Rightarrow> (PError + PBankAccount) \<times> PAccountManager \<times> filesystem" where
  "pm_create_account self owner_name initial_deposit now_account now_txn fs =
     (if initial_deposit < 0 then (Inl (P_NegativeAmountError initial_deposit), self, fs)
      else
        let (aid, self1) = pm_generate_account_id self;
            account = \<lparr>p_account_id = aid, p_owner = owner_name, p_balance = initial_deposit,
                       p_transactions = [], p_created_at = now_account,
                       p_transaction_counter = 0\<rparr>;
            account' =
              (if initial_deposit > 0
               then account\<lparr>p_transactions := p_transactions account @
                      [\<lparr>pt_id = aid @ ''-TXN-0000'', pt_type = P_DEPOSIT,
                        pt_amount = initial_deposit, pt_balance_after = initial_deposit,
                        pt_timestamp = now_txn, pt_description = Some ''Initial deposit''\<rparr>]\<rparr>
               else account);
            self2 = pm_put_account self1 aid account';
            (saved, fs') = pm_save_to_file self2 fs
        in case saved of Inl e \<Rightarrow> (Inl e, self2, fs') | Inr _ \<Rightarrow> (Inr account', self2, fs'))"

definition pm_get_account :: "PAccountManager \<Rightarrow> string \<Rightarrow> PError + PBankAccount" where
  "pm_get_account self aid =
     (case map_of (p_accounts self) aid of
        None \<Rightarrow> Inl (P_AccountNotFoundError aid)
      | Some account \<Rightarrow> Inr account)"

definition pm_deposit ::
  "PAccountManager \<Rightarrow> string \<Rightarrow> real \<Rightarrow> string option \<Rightarrow> string \<Rightarrow> filesystem
     \<Rightarrow> (PError + PTransaction) \<times> PAccountManager \<times> filesystem" where
  "pm_deposit self aid amt descr now fs =
     (case pm_get_account self aid of Inl e \<Rightarrow> (Inl e, self, fs) | Inr account \<Rightarrow>
        let (r, account') = p_deposit account amt descr now;
            self1 = pm_put_account self aid account'
        in case r of Inl e \<Rightarrow> (Inl e, self1, fs) | Inr txn \<Rightarrow>
          let (saved, fs') = pm_save_to_file self1 fs
          in case saved of Inl e \<Rightarrow> (Inl e, self1, fs') | Inr _ \<Rightarrow> (Inr txn, self1, fs'))"

definition pm_withdraw ::
  "PAccountManager \<Rightarrow> string \<Rightarrow> real \<Rightarrow> string option \<Rightarrow> string \<Rightarrow> filesystem
     \<Rightarrow> (PError + PTransaction) \<times> PAccountManager \<times> filesystem" where
  "pm_withdraw self aid amt descr now fs =
     (case pm_get_account self aid of Inl e \<Rightarrow> (Inl e, self, fs) | Inr account \<Rightarrow>
        let (r, account') = p_withdraw account amt descr now;
            self1 = pm_put_account self aid account'
        in case r of Inl e \<Rightarrow> (Inl e, self1, fs) | Inr txn \<Rightarrow>
          let (saved, fs') = pm_save_to_file self1 fs
          in case saved of Inl e \<Rightarrow> (Inl e, self1, fs') | Inr _ \<Rightarrow> (Inr txn, self1, fs'))"

text \<open>A session: the operations a caller performs on the manager, one after another.\<close>

datatype p_op =
    PCreateAccount string real string string
  | PDeposit string real "string option" string
  | PWithdraw string real "string option" string

fun p_step :: "PAccountManager \<times> filesystem \<Rightarrow> p_op \<Rightarrow> PAccountManager \<times> filesystem" where
  "p_step (m, fs) (PCreateAccount owner_name initial_deposit now_account now_txn) =
     snd (pm_create_account m owner_name initial_deposit now_account now_txn fs)"
| "p_step (m, fs) (PDeposit aid amt descr now) = snd (pm_deposit m aid amt descr now fs)"
| "p_step (m, fs) (PWithdraw aid amt descr now) = snd (pm_withdraw m aid amt descr now fs)"

definition p_run :: "PAccountManager \<times> filesystem \<Rightarrow> p_op list \<Rightarrow> PAccountManager \<times> filesystem" where
  "p_run start ops = foldl p_step start ops"

section \<open>Properties of accounts and helpers for stating them\<close>

text \<open>
  Reading a decimal numeral back, to tell the ids of different counters apart.
\<close>

definition digit_value :: "char \<Rightarrow> nat" where
  "digit_value c = of_char c - 48"

definition digits_value :: "string \<Rightarrow> nat" where
  "digits_value s = foldl (\<lambda>a c. 10 * a + digit_value c) 0 s"

text \<open>
  The balance agrees with the log: it is the \<^verbatim>\<open>balance_after\<close> of the last transaction, or
  0 when there is none, and it is not negative.
\<close>

definition balance_agrees :: "BankAccount \<Rightarrow> bool" where
  "balance_agrees a \<longleftrightarrow>
     balance a = (if transactions a = [] then 0 else t_balance_after (last (transactions a))) \<and>
     0 \<le> balance a"

text \<open>
  The opening record that \<^verbatim>\<open>create_account\<close> appends for a positive initial deposit has
  the id \<^verbatim>\<open>{account_id}-TXN-0000\<close>; the transactions that \<^verbatim>\<open>deposit\<close> and \<^verbatim>\<open>withdraw\<close> mint
  are the others.
\<close>

definition is_opening :: "BankAccount \<Rightarrow> Transaction \<Rightarrow> bool" where
  "is_opening a t \<longleftrightarrow> t_id t = account_id a @ ''-TXN-0000''"

definition minted :: "BankAccount \<Rightarrow> Transaction list" where
  "minted a = filter (\<lambda>t. \<not> is_opening a t) (transactions a)"

definition p_is_opening :: "PBankAccount \<Rightarrow> PTransaction \<Rightarrow> bool" where
  "p_is_opening a t \<longleftrightarrow> pt_id t = p_account_id a @ ''-TXN-0000''"

definition p_minted :: "PBankAccount \<Rightarrow> PTransaction list" where
  "p_minted a = filter (\<lambda>t. \<not> p_is_opening a t) (p_transactions a)"

text \<open>
  From one ledger state to a later one, every account is still there and its transaction
  counter has not gone down.
\<close>

definition counters_grow :: "AccountManager \<Rightarrow> AccountManager \<Rightarrow> bool" where
  "counters_grow m m' \<longleftrightarrow>
     (\<forall>k a. map_of (accounts m) k = Some a \<longrightarrow>
        (\<exists>a'. map_of (accounts m') k = Some a' \<and> transaction_counter a \<le> transaction_counter a'))"

text \<open>Every key of the dictionary is an id that the account counter has issued.\<close>

definition keys_issued :: "AccountManager \<Rightarrow> bool" where
  "keys_issued m \<longleftrightarrow>
     0 \<le> account_counter m \<and>
     (\<forall>k \<in> fst ` set (accounts m).
        \<exists>i. 0 < i \<and> i \<le> account_counter m \<and> k = ''ACC-'' @ format_d 6 i)"

definition p_counters_grow :: "PAccountManager \<Rightarrow> PAccountManager \<Rightarrow> bool" where
  "p_counters_grow m m' \<longleftrightarrow>
     (\<forall>k a. map_of (p_accounts m) k = Some a \<longrightarrow>
        (\<exists>a'. map_of (p_accounts m') k = Some a' \<and>
           p_transaction_counter a \<le> p_transaction_counter a'))"

definition p_keys_issued :: "PAccountManager \<Rightarrow> bool" where
  "p_keys_issued m \<longleftrightarrow>
     0 \<le> p_account_counter m \<and>
     (\<forall>k \<in> fst ` set (p_accounts m).
        \<exists>i. 0 < i \<and> i \<le> p_account_counter m \<and> k = ''ACC-'' @ format_d 6 i)"

text \<open>A session of the persistent bank that starts with no data file.\<close>

definition p_session :: "string \<Rightarrow> filesystem \<Rightarrow> p_op list \<Rightarrow> PAccountManager" where
  "p_session path fs ops =
     fst (p_run (\<lparr>p_accounts = [], p_data_file = path, p_account_counter = 0\<rparr>, fs) ops)"

subsection \<open>The records a successful call creates\<close>

text \<open>
  The transaction that \<^verbatim>\<open>withdraw\<close> and \<^verbatim>\<open>deposit\<close> append when they succeed, and the
  descriptions \<^verbatim>\<open>transfer\<close> passes to the two legs.
\<close>

definition withdrawal_txn :: "BankAccount \<Rightarrow> real \<Rightarrow> string option \<Rightarrow> datetime \<Rightarrow> Transaction" where
  "withdrawal_txn a amt descr now =
     \<lparr>t_id = account_id a @ ''-TXN-'' @ format_d 4 (transaction_counter a + 1),
      t_type = WITHDRAWAL, t_amount = amt, t_balance_after = float_sub (balance a) amt,
      t_timestamp = now, t_description = descr, t_success = True\<rparr>"

definition deposit_txn :: "BankAccount \<Rightarrow> real \<Rightarrow> string option \<Rightarrow> datetime \<Rightarrow> Transaction" where
  "deposit_txn a amt descr now =
     \<lparr>t_id = account_id a @ ''-TXN-'' @ format_d 4 (transaction_counter a + 1),
      t_type = DEPOSIT, t_amount = amt, t_balance_after = float_add (balance a) amt,
      t_timestamp = now, t_description = descr, t_success = True\<rparr>"

definition transfer_out_descr :: "string \<Rightarrow> string option \<Rightarrow> string option" where
  "transfer_out_descr to_id descr = Some (''Transfer to '' @ to_id @ description_suffix descr)"

definition transfer_in_descr :: "string \<Rightarrow> string option \<Rightarrow> string option" where
  "transfer_in_descr from_id descr = Some (''Transfer from '' @ from_id @ description_suffix descr)"

subsection \<open>Example ledgers\<close>

text \<open>
  The ledger of the demo: Alice opens with 1000 and Bob with 500; then the transfer of 200
  from Alice to Bob; and the same ledger with Bob's account deactivated.
\<close>

definition demo_ledger :: AccountManager where
  "demo_ledger = run [CreateAccount ''Alice'' 1000 ''2024-01-01T09:00:00'' ''2024-01-01T09:00:01'',
                      CreateAccount ''Bob'' 500 ''2024-01-01T09:05:00'' ''2024-01-01T09:05:01'']"

definition alice :: BankAccount where
  "alice = \<lparr>account_id = ''ACC-000001'', owner = ''Alice'', balance = 1000, is_active = True,
     transactions = [\<lparr>t_id = ''ACC-000001-TXN-0000'', t_type = DEPOSIT, t_amount = 1000,
        t_balance_after = 1000, t_timestamp = ''2024-01-01T09:00:01'',
        t_description = Some ''Initial deposit'', t_success = True\<rparr>],
     created_at = ''2024-01-01T09:00:00'', transaction_counter = 0\<rparr>"

definition bob :: BankAccount where
  "bob = \<lparr>account_id = ''ACC-000002'', owner = ''Bob'', balance = 500, is_active = True,
     transactions = [\<lparr>t_id = ''ACC-000002-TXN-0000'', t_type = DEPOSIT, t_amount = 500,
        t_balance_after = 500, t_timestamp = ''2024-01-01T09:05:01'',
        t_description = Some ''Initial deposit'', t_success = True\<rparr>],
     created_at = ''2024-01-01T09:05:00'', transaction_counter = 0\<rparr>"

definition after_transfer :: AccountManager where
  "after_transfer = step demo_ledger (Transfer ''ACC-000001'' ''ACC-000002'' 200
      (Some ''Rent payment'') ''2024-01-03T12:00:00'' ''2024-01-03T12:00:01'')"

definition alice_800 :: BankAccount where
  "alice_800 = alice\<lparr>balance := 800, transaction_counter := 1,
     transactions := transactions alice @
       [\<lparr>t_id = ''ACC-000001-TXN-0001'', t_type = WITHDRAWAL, t_amount = 200,
         t_balance_after = 800, t_timestamp = ''2024-01-03T12:00:00'',
         t_description = Some ''Transfer to ACC-000002: Rent payment'', t_success = True\<rparr>]\<rparr>"

definition bob_700 :: BankAccount where
  "bob_700 = bob\<lparr>balance := 700, transaction_counter := 1,
     transactions := transactions bob @
       [\<lparr>t_id = ''ACC-000002-TXN-0001'', t_type = DEPOSIT, t_amount = 200,
         t_balance_after = 700, t_timestamp = ''2024-01-03T12:00:01'',
         t_description = Some ''Transfer from ACC-000001: Rent payment'', t_success = True\<rparr>]\<rparr>"

definition bob_closed_ledger :: AccountManager where
  "bob_closed_ledger = step demo_ledger (SetActive ''ACC-000002'' False)"



text \<open>Charlie's account of the error demo, with 100 in it.\<close>

definition charlie :: BankAccount where
  "charlie = \<lparr>account_id = ''ACC-000001'', owner = ''Charlie'', balance = 100,
     is_active = True,
     transactions = [\<lparr>t_id = ''ACC-000001-TXN-0000'', t_type = DEPOSIT, t_amount = 100,
        t_balance_after = 100, t_timestamp = ''2024-01-01T09:00:00'',
        t_description = Some ''Initial deposit'', t_success = True\<rparr>],
     created_at = ''2024-01-01T09:00:00'', transaction_counter = 0\<rparr>"

text \<open>The three operations that lead to \<open>after_transfer\<close>, and a deposit that may follow.\<close>

definition transfer_ops :: "ledger_op list" where
  "transfer_ops =
     [CreateAccount ''Alice'' 1000 ''2024-01-01T09:00:00'' ''2024-01-01T09:00:01'',
      CreateAccount ''Bob'' 500 ''2024-01-01T09:05:00'' ''2024-01-01T09:05:01'',
      Transfer ''ACC-000001'' ''ACC-000002'' 200 (Some ''Rent payment'')
        ''2024-01-03T12:00:00'' ''2024-01-03T12:00:01'']"

definition bonus :: ledger_op where
  "bonus = Deposit ''ACC-000001'' 250 (Some ''Salary bonus'') ''2024-01-05T09:00:00''"

text \<open>
  The session of the persistence demo, started in a directory without
  \<^verbatim>\<open>accounts.json\<close>, and the ledger it ends with.
\<close>

definition empty_disk :: filesystem where
  "empty_disk = (\<lambda>path. NoFile)"

definition p_demo_ops :: "p_op list" where
  "p_demo_ops =
     [PCreateAccount ''Alice'' 1000 ''2024-01-01T09:00:00'' ''2024-01-01T09:00:01'',
      PCreateAccount ''Bob'' 500 ''2024-01-01T09:05:00'' ''2024-01-01T09:05:01'',
      PDeposit ''ACC-000001'' 250 (Some ''Bonus'') ''2024-01-02T10:00:00'',
      PWithdraw ''ACC-000001'' 100 (Some ''Groceries'') ''2024-01-02T18:30:00'']"

definition p_alice :: PBankAccount where
  "p_alice =
     \<lparr>p_account_id = ''ACC-000001'', p_owner = ''Alice'', p_balance = 1150,
      p_transactions =
        [\<lparr>pt_id = ''ACC-000001-TXN-0000'', pt_type = P_DEPOSIT, pt_amount = 1000,
          pt_balance_after = 1000, pt_timestamp = ''2024-01-01T09:00:01'',
          pt_description = Some ''Initial deposit''\<rparr>,
         \<lparr>pt_id = ''ACC-000001-TXN-0001'', pt_type = P_DEPOSIT, pt_amount = 250,
          pt_balance_after = 1250, pt_timestamp = ''2024-01-02T10:00:00'',
          pt_description = Some ''Bonus''\<rparr>,
         \<lparr>pt_id = ''ACC-000001-TXN-0002'', pt_type = P_WITHDRAWAL, pt_amount = 100,
          pt_balance_after = 1150, pt_timestamp = ''2024-01-02T18:30:00'',
          pt_description = Some ''Groceries''\<rparr>],
      p_created_at = ''2024-01-01T09:00:00'', p_transaction_counter = 2\<rparr>"

definition p_bob :: PBankAccount where
  "p_bob =
     \<lparr>p_account_id = ''ACC-000002'', p_owner = ''Bob'', p_balance = 500,
      p_transactions =
        [\<lparr>pt_id = ''ACC-000002-TXN-0000'', pt_type = P_DEPOSIT, pt_amount = 500,
          pt_balance_after = 500, pt_timestamp = ''2024-01-01T09:05:01'',
          pt_description = Some ''Initial deposit''\<rparr>],
      p_created_at = ''2024-01-01T09:05:00'', p_transaction_counter = 0\<rparr>"

definition p_demo_ledger :: PAccountManager where
  "p_demo_ledger =
     \<lparr>p_accounts = [(''ACC-000001'', p_alice), (''ACC-000002'', p_bob)],
      p_data_file = ''accounts.json'', p_account_counter = 2\<rparr>"

definition p_bonus :: p_op where
  "p_bonus = PDeposit ''ACC-000001'' 50 None ''2024-01-06T09:00:00''"

section \<open>Float arithmetic: facts\<close>

lemma round_half_even_nonneg: "0 \<le> x \<Longrightarrow> 0 \<le> round_half_even x"
  by (auto simp: round_half_even_def Let_def)

lemma round_half_even_of_int: "round_half_even (of_int n) = n"
  by (simp add: round_half_even_def)

lemma pow2_powr: "pow2 e = 2 powr of_int e"
proof (cases "0 \<le> e")
  case True
  then show ?thesis by (simp add: pow2_def powr_realpow [symmetric])
next
  case False
  then have "(2::real) powr of_int e = 1 / 2 powr of_int (- e)"
    by (simp add: powr_minus divide_inverse)
  also have "\<dots> = 1 / 2 ^ nat (- e)"
    using False by (simp add: powr_realpow [symmetric])
  finally show ?thesis using False by (simp add: pow2_def)
qed

lemma exponent_up_log: "1 \<le> x \<Longrightarrow> exponent_up x = \<lfloor>log 2 x\<rfloor>"
proof (induction x rule: exponent_up.induct)
  case (1 x)
  show ?case
  proof (cases "2 \<le> x")
    case True
    then have "exponent_up (x / 2) = \<lfloor>log 2 (x / 2)\<rfloor>"
      using 1 by simp
    also have "log 2 (x / 2) = log 2 x - 1"
      using True by (simp add: log_divide)
    finally show ?thesis
      using True by (subst exponent_up.simps) simp
  next
    case False
    then have "0 \<le> log 2 x" "log 2 x < 1"
      using 1(2) by (simp_all add: log_less_iff)
    then have "\<lfloor>log 2 x\<rfloor> = 0" by (simp add: floor_eq_iff)
    then show ?thesis
      using False by (subst exponent_up.simps) simp
  qed
qed

lemma exponent_down_log: "0 < x \<Longrightarrow> x < 2 \<Longrightarrow> exponent_down x = \<lfloor>log 2 x\<rfloor>"
proof (induction x rule: exponent_down.induct)
  case (1 x)
  show ?case
  proof (cases "x < 1")
    case True
    then have "exponent_down (2 * x) = \<lfloor>log 2 (2 * x)\<rfloor>"
      using 1 by simp
    also have "log 2 (2 * x) = log 2 x + 1"
      using 1(2) by (simp add: log_mult)
    finally show ?thesis
      using True 1(2) by (subst exponent_down.simps) simp
  next
    case False
    then have "0 \<le> log 2 x" "log 2 x < 1"
      using 1(3) by (simp_all add: log_less_iff)
    then have "\<lfloor>log 2 x\<rfloor> = 0" by (simp add: floor_eq_iff)
    then show ?thesis
      using False by (subst exponent_down.simps) simp
  qed
qed

lemma float_exponent_log: "0 < x \<Longrightarrow> float_exponent x = \<lfloor>log 2 x\<rfloor>"
  by (simp add: float_exponent_def exponent_up_log exponent_down_log)

lemma round_double_log:
  "round_double x =
     (if x = 0 then 0
      else let e = \<lfloor>log 2 \<bar>x\<bar>\<rfloor> - 52
           in of_int (round_half_even (x / 2 powr of_int e)) * 2 powr of_int e)"
  by (simp add: round_double_def float_exponent_log pow2_powr Let_def)

lemma round_double_nonneg: "0 \<le> x \<Longrightarrow> 0 \<le> round_double x"
  by (auto simp: round_double_log Let_def intro!: mult_nonneg_nonneg round_half_even_nonneg)

lemma float_add_nonneg: "0 \<le> x \<Longrightarrow> 0 \<le> y \<Longrightarrow> 0 \<le> float_add x y"
  by (simp add: float_add_def round_double_nonneg)

lemma float_sub_nonneg: "y \<le> x \<Longrightarrow> 0 \<le> float_sub x y"
  by (simp add: float_sub_def round_double_nonneg)

lemma round_double_scaled:
  fixes k :: int
  assumes lo: "2 ^ 52 \<le> \<bar>x\<bar> * 2 powr of_int k" and hi: "\<bar>x\<bar> * 2 powr of_int k < 2 ^ 53"
  shows "round_double x = of_int (round_half_even (x * 2 powr of_int k)) / 2 powr of_int k"
proof -
  have x0: "x \<noteq> 0" using lo by auto
  have pos: "0 < \<bar>x\<bar>" using x0 by simp
  have "log 2 (\<bar>x\<bar> * 2 powr of_int k) = log 2 \<bar>x\<bar> + of_int k"
    using pos by (simp add: log_mult)
  moreover have "52 \<le> log 2 (\<bar>x\<bar> * 2 powr of_int k)"
    using lo pos by (subst le_log_iff) (auto simp: powr_numeral)
  moreover have "log 2 (\<bar>x\<bar> * 2 powr of_int k) < 53"
    using hi pos by (subst log_less_iff) (auto simp: powr_numeral)
  ultimately have "\<lfloor>log 2 \<bar>x\<bar>\<rfloor> = 52 - k"
    by (subst floor_eq_iff) simp
  then have e: "\<lfloor>log 2 \<bar>x\<bar>\<rfloor> - 52 = - k"
    by simp
  show ?thesis
    using x0 unfolding round_double_log Let_def e
    by (simp add: powr_minus divide_inverse)
qed

lemma round_double_repr:
  fixes m k :: int
  assumes m: "\<bar>m\<bar> < 2 ^ 53"
  shows "round_double (of_int m * 2 powr of_int k) = of_int m * 2 powr of_int k"
proof (cases "m = 0")
  case True
  then show ?thesis by (simp add: round_double_log)
next
  case False
  define x :: real where "x = of_int m * 2 powr of_int k"
  have x0: "x \<noteq> 0" using False by (simp add: x_def)
  define e where "e = \<lfloor>log 2 \<bar>x\<bar>\<rfloor> - 52"
  have absx: "\<bar>x\<bar> = of_int \<bar>m\<bar> * 2 powr of_int k"
    by (simp add: x_def abs_mult)
  have "of_int \<bar>m\<bar> < (2::real) ^ 53"
    using m by (metis of_int_less_iff of_int_numeral of_int_power)
  then have "\<bar>x\<bar> < 2 ^ 53 * 2 powr of_int k"
    unfolding absx by simp
  also have "\<dots> = 2 powr (53 + of_int k)"
    by (simp add: powr_add powr_numeral)
  finally have "log 2 \<bar>x\<bar> < 53 + of_int k"
    using x0 by (subst log_less_iff) auto
  then have "\<lfloor>log 2 \<bar>x\<bar>\<rfloor> < 53 + k"
    by (simp add: floor_less_iff)
  then have ek: "e \<le> k" by (simp add: e_def)
  then obtain j :: nat where j: "k = e + int j"
    by (metis zle_iff_zadd)
  have "x / 2 powr of_int e = of_int m * 2 powr (of_int k - of_int e)"
    by (simp add: x_def powr_diff)
  also have "\<dots> = of_int (m * 2 ^ j)"
    by (simp add: j powr_realpow)
  finally have "round_half_even (x / 2 powr of_int e) = m * 2 ^ j"
    by (simp only: round_half_even_of_int)
  then have "round_double x = of_int (m * 2 ^ j) * 2 powr of_int e"
    using x0 by (simp add: round_double_log e_def)
  also have "\<dots> = of_int m * (2 powr of_int (int j) * 2 powr of_int e)"
    by (simp add: powr_realpow)
  also have "\<dots> = x"
    by (simp add: x_def j powr_add add.commute)
  finally show ?thesis by (simp add: x_def)
qed

lemma round_double_of_int: "\<bar>m\<bar> < 2 ^ 53 \<Longrightarrow> round_double (of_int m) = of_int m"
  using round_double_repr [of m 0] by simp

lemma round_double_numeral:
  "numeral n < (2::int) ^ 53 \<Longrightarrow> round_double (numeral n) = numeral n"
  using round_double_of_int [of "numeral n"] by simp

lemma round_double_0: "round_double 0 = 0"
  by (simp add: round_double_log)

lemmas float_eval = float_add_def float_sub_def round_double_numeral round_double_0


text \<open>The floats \<^verbatim>\<open>0.9\<close> and \<^verbatim>\<open>0.2\<close>, and what Python computes from them.\<close>

lemma float_09_02_are_floats:
  "round_double (8106479329266893 / 2 ^ 53) = 8106479329266893 / 2 ^ 53"
  "round_double (3602879701896397 / 2 ^ 54) = 3602879701896397 / 2 ^ 54"
  by (subst round_double_scaled [of _ 53], simp_all add: powr_numeral round_half_even_def)
     (subst round_double_scaled [of _ 55], simp_all add: powr_numeral round_half_even_def)



section \<open>Formatting and evaluation of concrete ledgers\<close>

lemma replicate_numeral: "replicate (numeral k) x = x # replicate (pred_numeral k) x"
  by (simp add: numeral_eq_Suc)

lemma format_d_eval: "format_d 6 1 = ''000001''" "format_d 6 2 = ''000002''" "format_d 4 1 = ''0001''"
  "format_d 4 2 = ''0002''" "format_d 4 12345 = ''12345''" "format_d 4 (-5) = ''-005''"
  by (simp_all add: format_d_def digits_of.simps digit_char_def replicate_numeral)

lemmas ledger_eval = run_def new_manager_def create_account_def generate_account_id_def
  put_account_def format_d_def digits_of.simps digit_char_def replicate_numeral Let_def

lemmas account_eval = deposit_def withdraw_def validate_active_def validate_amount_def
  generate_transaction_id_def InsufficientFundsError_def transfer_def get_account_def
  description_suffix_def Let_def

section \<open>Accounts: what deposit and withdraw do\<close>

lemma withdraw_inactive:
  "\<not> is_active a \<Longrightarrow> withdraw a amt descr now = (Inl (AccountInactiveError (account_id a)), a)"
  by (simp add: withdraw_def validate_active_def)

lemma deposit_inactive:
  "\<not> is_active a \<Longrightarrow> deposit a amt descr now = (Inl (AccountInactiveError (account_id a)), a)"
  by (simp add: deposit_def validate_active_def)

lemma withdraw_invalid:
  "is_active a \<Longrightarrow> amt \<le> 0 \<Longrightarrow>
   withdraw a amt descr now = (Inl (NegativeAmountError amt ''withdrawal''), a)"
  by (simp add: withdraw_def validate_active_def validate_amount_def)

lemma deposit_invalid:
  "is_active a \<Longrightarrow> amt \<le> 0 \<Longrightarrow>
   deposit a amt descr now = (Inl (NegativeAmountError amt ''deposit''), a)"
  by (simp add: deposit_def validate_active_def validate_amount_def)

lemma withdraw_insufficient:
  "is_active a \<Longrightarrow> 0 < amt \<Longrightarrow> balance a < amt \<Longrightarrow>
   withdraw a amt descr now = (Inl (InsufficientFunds (balance a) amt (float_sub amt (balance a))), a)"
  by (simp add: withdraw_def validate_active_def validate_amount_def InsufficientFundsError_def)

lemma withdraw_ok:
  "is_active a \<Longrightarrow> 0 < amt \<Longrightarrow> amt \<le> balance a \<Longrightarrow>
   withdraw a amt descr now =
     (Inr (withdrawal_txn a amt descr now),
      a\<lparr>balance := float_sub (balance a) amt,
        transaction_counter := transaction_counter a + 1,
        transactions := transactions a @ [withdrawal_txn a amt descr now]\<rparr>)"
  by (simp add: withdraw_def validate_active_def validate_amount_def
      generate_transaction_id_def withdrawal_txn_def Let_def)

lemma deposit_ok:
  "is_active a \<Longrightarrow> 0 < amt \<Longrightarrow>
   deposit a amt descr now =
     (Inr (deposit_txn a amt descr now),
      a\<lparr>balance := float_add (balance a) amt,
        transaction_counter := transaction_counter a + 1,
        transactions := transactions a @ [deposit_txn a amt descr now]\<rparr>)"
  by (simp add: deposit_def validate_active_def validate_amount_def
      generate_transaction_id_def deposit_txn_def Let_def)

lemma put_account_same: "map_of (accounts m) aid = Some a \<Longrightarrow> put_account m aid a = m"
  by (simp add: put_account_def update_triv)

lemma map_of_put_account:
  "map_of (accounts (put_account m aid a)) = (map_of (accounts m))(aid \<mapsto> a)"
  by (simp add: put_account_def update_conv')


section \<open>The example ledgers, evaluated\<close>

lemma demo_ledger_eval:
  "demo_ledger =
     \<lparr>accounts =
        [(''ACC-000001'',
          \<lparr>account_id = ''ACC-000001'', owner = ''Alice'', balance = 1000, is_active = True,
           transactions = [\<lparr>t_id = ''ACC-000001-TXN-0000'', t_type = DEPOSIT, t_amount = 1000,
              t_balance_after = 1000, t_timestamp = ''2024-01-01T09:00:01'',
              t_description = Some ''Initial deposit'', t_success = True\<rparr>],
           created_at = ''2024-01-01T09:00:00'', transaction_counter = 0\<rparr>),
         (''ACC-000002'',
          \<lparr>account_id = ''ACC-000002'', owner = ''Bob'', balance = 500, is_active = True,
           transactions = [\<lparr>t_id = ''ACC-000002-TXN-0000'', t_type = DEPOSIT, t_amount = 500,
              t_balance_after = 500, t_timestamp = ''2024-01-01T09:05:01'',
              t_description = Some ''Initial deposit'', t_success = True\<rparr>],
           created_at = ''2024-01-01T09:05:00'', transaction_counter = 0\<rparr>)],
      account_counter = 2\<rparr>"
  by (simp add: demo_ledger_def ledger_eval)

lemma demo_ledger_accounts:
  "demo_ledger = \<lparr>accounts = [(''ACC-000001'', alice), (''ACC-000002'', bob)], account_counter = 2\<rparr>"
  by (simp add: demo_ledger_eval alice_def bob_def)

lemma after_transfer_accounts:
  "after_transfer =
     \<lparr>accounts = [(''ACC-000001'', alice_800), (''ACC-000002'', bob_700)], account_counter = 2\<rparr>"
  by (simp add: after_transfer_def demo_ledger_accounts alice_800_def bob_700_def alice_def bob_def
      account_eval put_account_def float_eval format_d_eval)

lemma bob_closed_ledger_accounts:
  "bob_closed_ledger =
     \<lparr>accounts = [(''ACC-000001'', alice), (''ACC-000002'', bob\<lparr>is_active := False\<rparr>)],
      account_counter = 2\<rparr>"
  by (simp add: bob_closed_ledger_def demo_ledger_accounts put_account_def)


section \<open>Decimal formatting is injective\<close>

lemma digit_value_digit_char: "digit_value (digit_char d) = d mod 10"
proof -
  have "k = 0 \<or> k = 1 \<or> k = 2 \<or> k = 3 \<or> k = 4 \<or> k = 5 \<or> k = 6 \<or> k = 7 \<or> k = 8 \<or> k = 9"
    if "k < 10" for k :: nat
    using that by arith
  then have "digit_value (''0123456789'' ! k) = k" if "k < 10" for k
    using that by (fastforce simp: digit_value_def)
  then show ?thesis
    by (simp add: digit_char_def)
qed

lemma digits_value_snoc: "digits_value (s @ [c]) = 10 * digits_value s + digit_value c"
  by (simp add: digits_value_def)

lemma digits_value_digits_of: "digits_value (digits_of n) = n"
proof (induction n rule: digits_of.induct)
  case (1 n)
  show ?case
  proof (cases "n < 10")
    case True
    then show ?thesis
      by (subst digits_of.simps) (simp add: digits_value_def digit_value_digit_char)
  next
    case False
    then show ?thesis
      using 1 by (subst digits_of.simps) (simp add: digits_value_snoc digit_value_digit_char)
  qed
qed

lemma digits_value_zeros: "digits_value (replicate k (CHR ''0'') @ s) = digits_value s"
proof -
  have "foldl (\<lambda>a c. 10 * a + digit_value c) 0 (replicate k (CHR ''0'')) = 0"
    by (induction k) (simp_all add: digit_value_def)
  then show ?thesis by (simp add: digits_value_def)
qed

lemma digits_value_format_d: "0 \<le> n \<Longrightarrow> digits_value (format_d w n) = nat n"
  by (simp add: format_d_def Let_def digits_value_zeros digits_value_digits_of)

lemma format_d_inj: "0 \<le> i \<Longrightarrow> 0 \<le> j \<Longrightarrow> format_d w i = format_d w j \<Longrightarrow> i = j"
  by (metis digits_value_format_d nat_eq_iff2)

lemma format_d_not_0000: "0 < n \<Longrightarrow> format_d 4 n \<noteq> ''0000''"
proof
  assume n: "0 < n" and "format_d 4 n = ''0000''"
  then have "digits_value (format_d 4 n) = digits_value ''0000''" by simp
  then have "nat n = 0"
    using n by (simp add: digits_value_format_d) (simp add: digits_value_def digit_value_def)
  then show False using n by simp
qed

section \<open>The shape of every outcome\<close>

lemma deposit_cases:
  "snd (deposit a amt d n) = a \<or>
   (0 < amt \<and> snd (deposit a amt d n) =
      a\<lparr>balance := float_add (balance a) amt,
        transaction_counter := transaction_counter a + 1,
        transactions := transactions a @ [deposit_txn a amt d n]\<rparr>)"
proof (cases "is_active a")
  case False
  then show ?thesis by (simp add: deposit_inactive)
next
  case True
  then show ?thesis
    by (cases "amt \<le> 0") (simp_all add: deposit_invalid deposit_ok)
qed

lemma withdraw_cases:
  "snd (withdraw a amt d n) = a \<or>
   (0 < amt \<and> amt \<le> balance a \<and> snd (withdraw a amt d n) =
      a\<lparr>balance := float_sub (balance a) amt,
        transaction_counter := transaction_counter a + 1,
        transactions := transactions a @ [withdrawal_txn a amt d n]\<rparr>)"
proof (cases "is_active a")
  case False
  then show ?thesis by (simp add: withdraw_inactive)
next
  case True
  show ?thesis
  proof (cases "amt \<le> 0")
    case True
    then show ?thesis using \<open>is_active a\<close> by (simp add: withdraw_invalid)
  next
    case False
    then show ?thesis using \<open>is_active a\<close>
      by (cases "balance a < amt") (simp_all add: withdraw_insufficient withdraw_ok)
  qed
qed

lemma create_account_cases:
  "snd (create_account m own init n1 n2) = m \<or>
   (\<exists>acc. 0 \<le> init \<and> fst (create_account m own init n1 n2) = Inr acc \<and>
      snd (create_account m own init n1 n2) =
        put_account (m\<lparr>account_counter := account_counter m + 1\<rparr>)
          (''ACC-'' @ format_d 6 (account_counter m + 1)) acc)"
  by (simp add: create_account_def generate_account_id_def Let_def)

lemma transfer_cases:
  "snd (transfer m f t amt d n1 n2) = m \<or>
   (\<exists>A. map_of (accounts m) f = Some A \<and>
     (snd (transfer m f t amt d n1 n2) =
        put_account m f (snd (withdraw A amt (transfer_out_descr t d) n1)) \<or>
      (\<exists>X. map_of (accounts (put_account m f (snd (withdraw A amt (transfer_out_descr t d) n1)))) t
             = Some X \<and>
        snd (transfer m f t amt d n1 n2) =
          put_account (put_account m f (snd (withdraw A amt (transfer_out_descr t d) n1))) t
            (snd (deposit X amt (transfer_in_descr f d) n2)))))"
  by (auto simp: transfer_def get_account_def Let_def transfer_out_descr_def transfer_in_descr_def
      map_of_put_account split: option.splits sum.splits prod.splits)

section \<open>Invariants of the ledger\<close>

lemma values_update: "snd ` set (AList.update k v al) \<subseteq> insert v (snd ` set al)"
  by (induction al) auto

lemma put_account_every:
  "\<forall>a \<in> snd ` set (accounts m). P a \<Longrightarrow> P b \<Longrightarrow> \<forall>a \<in> snd ` set (accounts (put_account m k b)). P a"
proof -
  assume inv: "\<forall>a \<in> snd ` set (accounts m). P a" and b: "P b"
  have "snd ` set (accounts (put_account m k b)) \<subseteq> insert b (snd ` set (accounts m))"
    by (simp add: put_account_def values_update)
  then show ?thesis using inv b by blast
qed

lemma lookup_in_values: "map_of al k = Some a \<Longrightarrow> a \<in> snd ` set al"
  by (metis map_of_SomeD snd_conv image_eqI)

lemma step_preserves:
  assumes dep: "\<And>a amt d n. P a \<Longrightarrow> P (snd (deposit a amt d n))"
    and wd: "\<And>a amt d n. P a \<Longrightarrow> P (snd (withdraw a amt d n))"
    and act: "\<And>a b. P a \<Longrightarrow> P (a\<lparr>is_active := b\<rparr>)"
    and new: "\<And>m own init n1 n2 a. fst (create_account m own init n1 n2) = Inr a \<Longrightarrow> P a"
    and inv: "\<forall>a \<in> snd ` set (accounts m). P a"
  shows "\<forall>a \<in> snd ` set (accounts (step m op)). P a"
proof (cases op)
  case (CreateAccount own init n1 n2)
  have m': "\<forall>a \<in> snd ` set (accounts (m\<lparr>account_counter := account_counter m + 1\<rparr>)). P a"
    using inv by simp
  show ?thesis
    using create_account_cases [of m own init n1 n2] inv new put_account_every [OF m']
    unfolding CreateAccount step.simps by metis
next
  case (Deposit k amt d n)
  show ?thesis
  proof (cases "map_of (accounts m) k")
    case None
    then show ?thesis using inv Deposit by simp
  next
    case (Some a)
    then have "P a" using inv lookup_in_values by fastforce
    then show ?thesis using Deposit Some put_account_every [OF inv dep] by simp
  qed
next
  case (Withdraw k amt d n)
  show ?thesis
  proof (cases "map_of (accounts m) k")
    case None
    then show ?thesis using inv Withdraw by simp
  next
    case (Some a)
    then have "P a" using inv lookup_in_values by fastforce
    then show ?thesis using Withdraw Some put_account_every [OF inv wd] by simp
  qed
next
  case (SetActive k b)
  show ?thesis
  proof (cases "map_of (accounts m) k")
    case None
    then show ?thesis using inv SetActive by simp
  next
    case (Some a)
    then have "P a" using inv lookup_in_values by fastforce
    then show ?thesis using SetActive Some put_account_every [OF inv act] by simp
  qed
next
  case (Transfer f t amt d n1 n2)
  consider (same) "snd (transfer m f t amt d n1 n2) = m"
    | (one) A where "map_of (accounts m) f = Some A"
        "snd (transfer m f t amt d n1 n2) =
           put_account m f (snd (withdraw A amt (transfer_out_descr t d) n1))"
    | (two) A X where "map_of (accounts m) f = Some A"
        "map_of (accounts (put_account m f (snd (withdraw A amt (transfer_out_descr t d) n1)))) t = Some X"
        "snd (transfer m f t amt d n1 n2) =
          put_account (put_account m f (snd (withdraw A amt (transfer_out_descr t d) n1))) t
            (snd (deposit X amt (transfer_in_descr f d) n2))"
    using transfer_cases [of m f t amt d n1 n2] by blast
  then show ?thesis
  proof cases
    case same
    then show ?thesis using inv Transfer by simp
  next
    case one
    have "P A" using one(1) inv lookup_in_values by fastforce
    then show ?thesis
      using one(2) Transfer put_account_every [OF inv wd] by simp
  next
    case two
    have "P A" using two(1) inv lookup_in_values by fastforce
    then have 1: "\<forall>a \<in> snd ` set (accounts (put_account m f
        (snd (withdraw A amt (transfer_out_descr t d) n1)))). P a"
      using put_account_every [OF inv wd] by simp
    then have "P X" using two(2) lookup_in_values by fastforce
    then show ?thesis
      using two(3) Transfer put_account_every [OF 1 dep] by simp
  qed
qed

lemma run_snoc: "run (ops @ [op]) = step (run ops) op"
  by (simp add: run_def)

lemma run_preserves:
  assumes dep: "\<And>a amt d n. P a \<Longrightarrow> P (snd (deposit a amt d n))"
    and wd: "\<And>a amt d n. P a \<Longrightarrow> P (snd (withdraw a amt d n))"
    and act: "\<And>a b. P a \<Longrightarrow> P (a\<lparr>is_active := b\<rparr>)"
    and new: "\<And>m own init n1 n2 a. fst (create_account m own init n1 n2) = Inr a \<Longrightarrow> P a"
  shows "\<forall>a \<in> snd ` set (accounts (run ops)). P a"
proof (induction ops rule: rev_induct)
  case Nil
  then show ?case by (simp add: run_def new_manager_def)
next
  case (snoc op ops)
  show ?case
    unfolding run_snoc by (rule step_preserves [OF dep wd act new snoc.IH])
qed

section \<open>The balance agrees with the log\<close>

lemma balance_agrees_deposit: "balance_agrees a \<Longrightarrow> balance_agrees (snd (deposit a amt d n))"
  using deposit_cases [of a amt d n]
  by (auto simp: balance_agrees_def deposit_txn_def float_add_nonneg)

lemma balance_agrees_withdraw: "balance_agrees a \<Longrightarrow> balance_agrees (snd (withdraw a amt d n))"
  using withdraw_cases [of a amt d n]
  by (auto simp: balance_agrees_def withdrawal_txn_def float_sub_nonneg)

lemma balance_agrees_created:
  "fst (create_account m own init n1 n2) = Inr a \<Longrightarrow> balance_agrees a"
  by (auto simp: create_account_def generate_account_id_def Let_def balance_agrees_def
      split: if_splits)

text \<open>
  With finite amounts and no overflow, the balance of every account of a ledger is the
  \<^verbatim>\<open>balance_after\<close> of the last transaction in its log, or 0 if the log is empty, and is
  not negative.
\<close>

lemma ledger_balance_agrees:
  assumes "map_of (accounts (run ops)) aid = Some a"
  shows "balance a = (if transactions a = [] then 0 else t_balance_after (last (transactions a))) \<and>
         0 \<le> balance a"
proof -
  have "\<forall>a \<in> snd ` set (accounts (run ops)). balance_agrees a"
    by (rule run_preserves)
       (simp_all add: balance_agrees_deposit balance_agrees_withdraw balance_agrees_created,
        simp add: balance_agrees_def)
  then have "balance_agrees a"
    using assms lookup_in_values by fastforce
  then show ?thesis by (simp add: balance_agrees_def)
qed

section \<open>The transaction counter\<close>

lemma minted_snoc:
  "account_id a' = account_id a \<Longrightarrow> transactions a' = transactions a @ [t] \<Longrightarrow>
   t_id t = account_id a @ ''-TXN-'' @ format_d 4 c \<Longrightarrow> 0 < c \<Longrightarrow>
   minted a' = minted a @ [t]"
  by (simp add: minted_def is_opening_def format_d_not_0000)

lemma counter_counts_deposit:
  assumes "transaction_counter a = int (length (minted a))"
  shows "transaction_counter (snd (deposit a amt d n)) = int (length (minted (snd (deposit a amt d n))))"
proof -
  let ?a' = "a\<lparr>balance := float_add (balance a) amt,
        transaction_counter := transaction_counter a + 1,
        transactions := transactions a @ [deposit_txn a amt d n]\<rparr>"
  have "minted ?a' = minted a @ [deposit_txn a amt d n]"
    using assms by (intro minted_snoc [where c = "transaction_counter a + 1"])
      (simp_all add: deposit_txn_def)
  then show ?thesis
    using deposit_cases [of a amt d n] assms by auto
qed

lemma counter_counts_withdraw:
  assumes "transaction_counter a = int (length (minted a))"
  shows "transaction_counter (snd (withdraw a amt d n)) = int (length (minted (snd (withdraw a amt d n))))"
proof -
  let ?a' = "a\<lparr>balance := float_sub (balance a) amt,
        transaction_counter := transaction_counter a + 1,
        transactions := transactions a @ [withdrawal_txn a amt d n]\<rparr>"
  have "minted ?a' = minted a @ [withdrawal_txn a amt d n]"
    using assms by (intro minted_snoc [where c = "transaction_counter a + 1"])
      (simp_all add: withdrawal_txn_def)
  then show ?thesis
    using withdraw_cases [of a amt d n] assms by auto
qed

lemma counter_counts_created:
  "fst (create_account m own init n1 n2) = Inr a \<Longrightarrow> transaction_counter a = int (length (minted a))"
  by (auto simp: create_account_def generate_account_id_def Let_def minted_def is_opening_def
      split: if_splits)

lemma counter_counts_run:
  "\<forall>a \<in> snd ` set (accounts (run ops)). transaction_counter a = int (length (minted a))"
  by (rule run_preserves)
     (simp_all add: counter_counts_deposit counter_counts_withdraw counter_counts_created,
      simp add: minted_def is_opening_def)

lemma deposit_counter_mono: "transaction_counter a \<le> transaction_counter (snd (deposit a amt d n))"
  using deposit_cases [of a amt d n] by auto

lemma withdraw_counter_mono: "transaction_counter a \<le> transaction_counter (snd (withdraw a amt d n))"
  using withdraw_cases [of a amt d n] by auto

lemma counters_grow_refl: "counters_grow m m"
  by (simp add: counters_grow_def)

lemma counters_grow_trans: "counters_grow m m' \<Longrightarrow> counters_grow m' m'' \<Longrightarrow> counters_grow m m''"
  unfolding counters_grow_def by (meson order_trans)

lemma counters_grow_put:
  "map_of (accounts m) k = Some a \<Longrightarrow> transaction_counter a \<le> transaction_counter b \<Longrightarrow>
   counters_grow m (put_account m k b)"
  by (auto simp: counters_grow_def map_of_put_account)

lemma counters_grow_put_new:
  "map_of (accounts m) k = None \<Longrightarrow> accounts m' = accounts m \<Longrightarrow>
   counters_grow m (put_account m' k b)"
  by (auto simp: counters_grow_def map_of_put_account)

lemma key_of_lookup: "map_of al k = Some a \<Longrightarrow> k \<in> fst ` set al"
  by (metis map_of_eq_None_iff option.distinct(1))

lemma keys_put_existing:
  "map_of (accounts m) k = Some a \<Longrightarrow> fst ` set (accounts (put_account m k b)) = fst ` set (accounts m)"
  using key_of_lookup [of "accounts m" k a] by (auto simp: put_account_def dom_update)

lemma keys_issued_put:
  "keys_issued m \<Longrightarrow> map_of (accounts m) k = Some a \<Longrightarrow> keys_issued (put_account m k b)"
  unfolding keys_issued_def by (simp add: keys_put_existing) (simp add: put_account_def)

lemma fresh_key:
  assumes "keys_issued m"
  shows "map_of (accounts m) (''ACC-'' @ format_d 6 (account_counter m + 1)) = None"
proof (rule ccontr)
  assume "map_of (accounts m) (''ACC-'' @ format_d 6 (account_counter m + 1)) \<noteq> None"
  then have "''ACC-'' @ format_d 6 (account_counter m + 1) \<in> fst ` set (accounts m)"
    by (simp add: map_of_eq_None_iff)
  then obtain i where i: "0 < i" "i \<le> account_counter m"
      "''ACC-'' @ format_d 6 (account_counter m + 1) = ''ACC-'' @ format_d 6 i"
    using assms unfolding keys_issued_def by blast
  then have "format_d 6 (account_counter m + 1) = format_d 6 i" by simp
  then have "account_counter m + 1 = i"
    using i by (intro format_d_inj [of _ _ 6]) simp_all
  then show False using i by simp
qed

lemma step_grows:
  assumes "keys_issued m"
  shows "counters_grow m (step m op)"
proof (cases op)
  case (CreateAccount own init n1 n2)
  consider (same) "snd (create_account m own init n1 n2) = m"
    | (new) acc where "snd (create_account m own init n1 n2) =
        put_account (m\<lparr>account_counter := account_counter m + 1\<rparr>)
          (''ACC-'' @ format_d 6 (account_counter m + 1)) acc"
    using create_account_cases [of m own init n1 n2] by blast
  then show ?thesis
  proof cases
    case same
    then show ?thesis unfolding CreateAccount step.simps by (simp only: counters_grow_refl)
  next
    case new
    have "counters_grow m (put_account (m\<lparr>account_counter := account_counter m + 1\<rparr>)
          (''ACC-'' @ format_d 6 (account_counter m + 1)) acc)"
      by (rule counters_grow_put_new [OF fresh_key [OF assms]]) simp
    then show ?thesis unfolding CreateAccount step.simps new .
  qed
next
  case (Deposit k amt d n)
  then show ?thesis
    by (cases "map_of (accounts m) k")
       (simp_all add: counters_grow_refl deposit_counter_mono counters_grow_put)
next
  case (Withdraw k amt d n)
  then show ?thesis
    by (cases "map_of (accounts m) k")
       (simp_all add: counters_grow_refl withdraw_counter_mono counters_grow_put)
next
  case (SetActive k b)
  then show ?thesis
    by (cases "map_of (accounts m) k") (simp_all add: counters_grow_refl counters_grow_put)
next
  case (Transfer f t amt d n1 n2)
  consider (same) "snd (transfer m f t amt d n1 n2) = m"
    | (one) A where "map_of (accounts m) f = Some A"
        "snd (transfer m f t amt d n1 n2) =
           put_account m f (snd (withdraw A amt (transfer_out_descr t d) n1))"
    | (two) A X where "map_of (accounts m) f = Some A"
        "map_of (accounts (put_account m f (snd (withdraw A amt (transfer_out_descr t d) n1)))) t = Some X"
        "snd (transfer m f t amt d n1 n2) =
          put_account (put_account m f (snd (withdraw A amt (transfer_out_descr t d) n1))) t
            (snd (deposit X amt (transfer_in_descr f d) n2))"
    using transfer_cases [of m f t amt d n1 n2] by blast
  then show ?thesis
  proof cases
    case same
    then show ?thesis using Transfer by (simp add: counters_grow_refl)
  next
    case one
    then show ?thesis
      using Transfer by (simp add: counters_grow_put withdraw_counter_mono)
  next
    case two
    have 1: "counters_grow m (put_account m f (snd (withdraw A amt (transfer_out_descr t d) n1)))"
      using two(1) by (simp add: counters_grow_put withdraw_counter_mono)
    have 2: "counters_grow (put_account m f (snd (withdraw A amt (transfer_out_descr t d) n1)))
        (put_account (put_account m f (snd (withdraw A amt (transfer_out_descr t d) n1))) t
            (snd (deposit X amt (transfer_in_descr f d) n2)))"
      using two(2) by (simp add: counters_grow_put deposit_counter_mono)
    show ?thesis
      using Transfer two(3) counters_grow_trans [OF 1 2] by simp
  qed
qed

lemma step_keys_issued:
  assumes "keys_issued m"
  shows "keys_issued (step m op)"
proof (cases op)
  case (CreateAccount own init n1 n2)
  define key where "key = ''ACC-'' @ format_d 6 (account_counter m + 1)"
  have "keys_issued (put_account (m\<lparr>account_counter := account_counter m + 1\<rparr>) key acc)" for acc
  proof -
    have c: "account_counter (put_account (m\<lparr>account_counter := account_counter m + 1\<rparr>) key acc)
        = account_counter m + 1"
      by (simp add: put_account_def)
    have k: "fst ` set (accounts (put_account (m\<lparr>account_counter := account_counter m + 1\<rparr>) key acc))
        = {key} \<union> fst ` set (accounts m)"
      by (simp add: put_account_def dom_update)
    have "\<exists>i. 0 < i \<and> i \<le> account_counter m + 1 \<and> k' = ''ACC-'' @ format_d 6 i"
      if "k' \<in> {key} \<union> fst ` set (accounts m)" for k'
    proof (cases "k' = key")
      case True
      then show ?thesis using assms by (intro exI [of _ "account_counter m + 1"]) (simp add: key_def keys_issued_def)
    next
      case False
      then have "k' \<in> fst ` set (accounts m)" using that by simp
      then obtain i where "0 < i" "i \<le> account_counter m" "k' = ''ACC-'' @ format_d 6 i"
        using assms unfolding keys_issued_def by blast
      then show ?thesis by (intro exI [of _ i]) simp
    qed
    then show ?thesis
      unfolding keys_issued_def c k using assms by (simp add: keys_issued_def)
  qed
  then show ?thesis
    using create_account_cases [of m own init n1 n2] assms
    unfolding CreateAccount step.simps key_def by metis
next
  case (Deposit k amt d n)
  then show ?thesis
    using assms by (cases "map_of (accounts m) k") (simp_all add: keys_issued_put)
next
  case (Withdraw k amt d n)
  then show ?thesis
    using assms by (cases "map_of (accounts m) k") (simp_all add: keys_issued_put)
next
  case (SetActive k b)
  then show ?thesis
    using assms by (cases "map_of (accounts m) k") (simp_all add: keys_issued_put)
next
  case (Transfer f t amt d n1 n2)
  consider (same) "snd (transfer m f t amt d n1 n2) = m"
    | (one) A where "map_of (accounts m) f = Some A"
        "snd (transfer m f t amt d n1 n2) =
           put_account m f (snd (withdraw A amt (transfer_out_descr t d) n1))"
    | (two) A X where "map_of (accounts m) f = Some A"
        "map_of (accounts (put_account m f (snd (withdraw A amt (transfer_out_descr t d) n1)))) t = Some X"
        "snd (transfer m f t amt d n1 n2) =
          put_account (put_account m f (snd (withdraw A amt (transfer_out_descr t d) n1))) t
            (snd (deposit X amt (transfer_in_descr f d) n2))"
    using transfer_cases [of m f t amt d n1 n2] by blast
  then show ?thesis
  proof cases
    case same
    then show ?thesis using Transfer assms by simp
  next
    case one
    then show ?thesis using Transfer keys_issued_put [OF assms one(1)] by simp
  next
    case two
    then show ?thesis
      using Transfer keys_issued_put [OF keys_issued_put [OF assms two(1)] two(2)] by simp
  qed
qed

lemma run_keys_issued: "keys_issued (run ops)"
proof (induction ops rule: rev_induct)
  case Nil
  then show ?case by (simp add: run_def new_manager_def keys_issued_def)
next
  case (snoc op ops)
  then show ?case by (simp add: run_snoc step_keys_issued)
qed

section \<open>The persistent bank: outcomes and invariants\<close>

lemma p_deposit_cases:
  "snd (p_deposit a amt d n) = a \<or>
   (0 < amt \<and> snd (p_deposit a amt d n) =
      a\<lparr>p_balance := float_add (p_balance a) amt,
        p_transaction_counter := p_transaction_counter a + 1,
        p_transactions := p_transactions a @
          [\<lparr>pt_id = p_account_id a @ ''-TXN-'' @ format_d 4 (p_transaction_counter a + 1),
            pt_type = P_DEPOSIT, pt_amount = amt,
            pt_balance_after = float_add (p_balance a) amt, pt_timestamp = n,
            pt_description = d\<rparr>]\<rparr>)"
  by (cases "amt \<le> 0") (simp_all add: p_deposit_def p_generate_transaction_id_def Let_def)

lemma p_withdraw_cases:
  "snd (p_withdraw a amt d n) = a \<or>
   (0 < amt \<and> amt \<le> p_balance a \<and> snd (p_withdraw a amt d n) =
      a\<lparr>p_balance := float_sub (p_balance a) amt,
        p_transaction_counter := p_transaction_counter a + 1,
        p_transactions := p_transactions a @
          [\<lparr>pt_id = p_account_id a @ ''-TXN-'' @ format_d 4 (p_transaction_counter a + 1),
            pt_type = P_WITHDRAWAL, pt_amount = amt,
            pt_balance_after = float_sub (p_balance a) amt, pt_timestamp = n,
            pt_description = d\<rparr>]\<rparr>)"
  by (cases "amt \<le> 0"; cases "p_balance a < amt")
     (simp_all add: p_withdraw_def p_generate_transaction_id_def Let_def)

lemma pm_create_account_cases:
  "fst (snd (pm_create_account m own init n1 n2 fs)) = m \<or>
   (\<exists>acc. 0 \<le> init \<and> p_transaction_counter acc = 0 \<and> p_minted acc = [] \<and>
      fst (snd (pm_create_account m own init n1 n2 fs)) =
        pm_put_account (m\<lparr>p_account_counter := p_account_counter m + 1\<rparr>)
          (''ACC-'' @ format_d 6 (p_account_counter m + 1)) acc)"
proof (cases "init < 0")
  case True
  then show ?thesis by (simp add: pm_create_account_def)
next
  case False
  define acc where "acc =
    \<lparr>p_account_id = ''ACC-'' @ format_d 6 (p_account_counter m + 1), p_owner = own,
     p_balance = init,
     p_transactions =
       (if init > 0
        then [\<lparr>pt_id = (''ACC-'' @ format_d 6 (p_account_counter m + 1)) @ ''-TXN-0000'',
               pt_type = P_DEPOSIT, pt_amount = init, pt_balance_after = init,
               pt_timestamp = n2, pt_description = Some ''Initial deposit''\<rparr>]
        else []),
     p_created_at = n1, p_transaction_counter = 0\<rparr>"
  have "fst (snd (pm_create_account m own init n1 n2 fs)) =
      pm_put_account (m\<lparr>p_account_counter := p_account_counter m + 1\<rparr>)
        (''ACC-'' @ format_d 6 (p_account_counter m + 1)) acc"
    using False
    by (simp add: pm_create_account_def pm_generate_account_id_def pm_save_to_file_def Let_def
        acc_def)
  moreover have "p_transaction_counter acc = 0" "p_minted acc = []"
    by (simp_all add: acc_def p_minted_def p_is_opening_def)
  ultimately show ?thesis using False by auto
qed

lemma pm_deposit_cases:
  "fst (snd (pm_deposit m k amt d n fs)) = m \<or>
   (\<exists>a. map_of (p_accounts m) k = Some a \<and>
      fst (snd (pm_deposit m k amt d n fs)) = pm_put_account m k (snd (p_deposit a amt d n)))"
  by (auto simp: pm_deposit_def pm_get_account_def Let_def split: option.splits prod.splits sum.splits)

lemma pm_withdraw_cases:
  "fst (snd (pm_withdraw m k amt d n fs)) = m \<or>
   (\<exists>a. map_of (p_accounts m) k = Some a \<and>
      fst (snd (pm_withdraw m k amt d n fs)) = pm_put_account m k (snd (p_withdraw a amt d n)))"
  by (auto simp: pm_withdraw_def pm_get_account_def Let_def split: option.splits prod.splits sum.splits)

lemma p_step_cases:
  "fst (p_step (m, fs) op) = m \<or>
   (\<exists>acc. p_transaction_counter acc = 0 \<and> p_minted acc = [] \<and>
      fst (p_step (m, fs) op) =
        pm_put_account (m\<lparr>p_account_counter := p_account_counter m + 1\<rparr>)
          (''ACC-'' @ format_d 6 (p_account_counter m + 1)) acc) \<or>
   (\<exists>k a amt d n. map_of (p_accounts m) k = Some a \<and>
      (fst (p_step (m, fs) op) = pm_put_account m k (snd (p_deposit a amt d n)) \<or>
       fst (p_step (m, fs) op) = pm_put_account m k (snd (p_withdraw a amt d n))))"
proof (cases op)
  case (PCreateAccount own init n1 n2)
  have "fst (p_step (m, fs) op) = fst (snd (pm_create_account m own init n1 n2 fs))"
    by (simp add: PCreateAccount)
  with pm_create_account_cases [of m own init n1 n2 fs] show ?thesis by metis
next
  case (PDeposit k amt d n)
  have "fst (p_step (m, fs) op) = fst (snd (pm_deposit m k amt d n fs))"
    by (simp add: PDeposit)
  with pm_deposit_cases [of m k amt d n fs] show ?thesis by metis
next
  case (PWithdraw k amt d n)
  have "fst (p_step (m, fs) op) = fst (snd (pm_withdraw m k amt d n fs))"
    by (simp add: PWithdraw)
  with pm_withdraw_cases [of m k amt d n fs] show ?thesis by metis
qed

lemma map_of_pm_put_account:
  "map_of (p_accounts (pm_put_account m aid a)) = (map_of (p_accounts m))(aid \<mapsto> a)"
  by (simp add: pm_put_account_def update_conv')

lemma p_minted_snoc:
  "p_account_id a' = p_account_id a \<Longrightarrow> p_transactions a' = p_transactions a @ [t] \<Longrightarrow>
   pt_id t = p_account_id a @ ''-TXN-'' @ format_d 4 c \<Longrightarrow> 0 < c \<Longrightarrow>
   p_minted a' = p_minted a @ [t]"
  by (simp add: p_minted_def p_is_opening_def format_d_not_0000)

lemma p_counter_counts_deposit:
  assumes "p_transaction_counter a = int (length (p_minted a))"
  shows "p_transaction_counter (snd (p_deposit a amt d n)) =
           int (length (p_minted (snd (p_deposit a amt d n))))"
proof -
  consider "snd (p_deposit a amt d n) = a"
    | t where "snd (p_deposit a amt d n) =
         a\<lparr>p_balance := float_add (p_balance a) amt,
           p_transaction_counter := p_transaction_counter a + 1,
           p_transactions := p_transactions a @ [t]\<rparr>"
        "pt_id t = p_account_id a @ ''-TXN-'' @ format_d 4 (p_transaction_counter a + 1)"
    using p_deposit_cases [of a amt d n] by auto
  then show ?thesis
  proof cases
    case 1
    then show ?thesis using assms by simp
  next
    case 2
    have "p_minted (snd (p_deposit a amt d n)) = p_minted a @ [t]"
      using assms 2 by (intro p_minted_snoc [where c = "p_transaction_counter a + 1"]) simp_all
    then show ?thesis using assms 2 by simp
  qed
qed

lemma p_counter_counts_withdraw:
  assumes "p_transaction_counter a = int (length (p_minted a))"
  shows "p_transaction_counter (snd (p_withdraw a amt d n)) =
           int (length (p_minted (snd (p_withdraw a amt d n))))"
proof -
  consider "snd (p_withdraw a amt d n) = a"
    | t where "snd (p_withdraw a amt d n) =
         a\<lparr>p_balance := float_sub (p_balance a) amt,
           p_transaction_counter := p_transaction_counter a + 1,
           p_transactions := p_transactions a @ [t]\<rparr>"
        "pt_id t = p_account_id a @ ''-TXN-'' @ format_d 4 (p_transaction_counter a + 1)"
    using p_withdraw_cases [of a amt d n] by auto
  then show ?thesis
  proof cases
    case 1
    then show ?thesis using assms by simp
  next
    case 2
    have "p_minted (snd (p_withdraw a amt d n)) = p_minted a @ [t]"
      using assms 2 by (intro p_minted_snoc [where c = "p_transaction_counter a + 1"]) simp_all
    then show ?thesis using assms 2 by simp
  qed
qed

lemma p_deposit_counter_mono:
  "p_transaction_counter a \<le> p_transaction_counter (snd (p_deposit a amt d n))"
  using p_deposit_cases [of a amt d n] by auto

lemma p_withdraw_counter_mono:
  "p_transaction_counter a \<le> p_transaction_counter (snd (p_withdraw a amt d n))"
  using p_withdraw_cases [of a amt d n] by auto

lemma pm_put_account_every:
  assumes inv: "\<forall>a \<in> snd ` set (p_accounts m). P a" and b: "P b"
  shows "\<forall>a \<in> snd ` set (p_accounts (pm_put_account m k b)). P a"
proof -
  have "snd ` set (p_accounts (pm_put_account m k b)) \<subseteq> insert b (snd ` set (p_accounts m))"
    by (simp add: pm_put_account_def values_update)
  then show ?thesis using inv b by blast
qed

lemma p_step_counts:
  assumes inv: "\<forall>a \<in> snd ` set (p_accounts m). p_transaction_counter a = int (length (p_minted a))"
  shows "\<forall>a \<in> snd ` set (p_accounts (fst (p_step (m, fs) op))).
           p_transaction_counter a = int (length (p_minted a))"
proof -
  consider (same) "fst (p_step (m, fs) op) = m"
    | (new) acc where "p_transaction_counter acc = 0" "p_minted acc = []"
        "fst (p_step (m, fs) op) =
          pm_put_account (m\<lparr>p_account_counter := p_account_counter m + 1\<rparr>)
            (''ACC-'' @ format_d 6 (p_account_counter m + 1)) acc"
    | (dep) k a amt d n where "map_of (p_accounts m) k = Some a"
        "fst (p_step (m, fs) op) = pm_put_account m k (snd (p_deposit a amt d n))"
    | (wd) k a amt d n where "map_of (p_accounts m) k = Some a"
        "fst (p_step (m, fs) op) = pm_put_account m k (snd (p_withdraw a amt d n))"
    using p_step_cases [of m fs op] by blast
  then show ?thesis
  proof cases
    case same
    then show ?thesis using inv by simp
  next
    case new
    have "\<forall>a \<in> snd ` set (p_accounts (m\<lparr>p_account_counter := p_account_counter m + 1\<rparr>)).
        p_transaction_counter a = int (length (p_minted a))"
      using inv by simp
    then show ?thesis
      unfolding new(3) using new(1,2) by (intro pm_put_account_every) simp_all
  next
    case dep
    have "p_transaction_counter a = int (length (p_minted a))"
      using dep(1) inv lookup_in_values by fastforce
    then show ?thesis
      unfolding dep(2) by (intro pm_put_account_every inv p_counter_counts_deposit)
  next
    case wd
    have "p_transaction_counter a = int (length (p_minted a))"
      using wd(1) inv lookup_in_values by fastforce
    then show ?thesis
      unfolding wd(2) by (intro pm_put_account_every inv p_counter_counts_withdraw)
  qed
qed

lemma p_run_snoc: "p_run start (ops @ [op]) = p_step (p_run start ops) op"
  by (simp add: p_run_def)

lemma p_session_snoc:
  "p_session path fs (ops @ [op]) =
     fst (p_step (p_session path fs ops,
                  snd (p_run (\<lparr>p_accounts = [], p_data_file = path, p_account_counter = 0\<rparr>, fs) ops)) op)"
  by (simp add: p_session_def p_run_snoc)

lemma p_session_counts:
  "\<forall>a \<in> snd ` set (p_accounts (p_session path fs ops)).
     p_transaction_counter a = int (length (p_minted a))"
proof (induction ops rule: rev_induct)
  case Nil
  then show ?case by (simp add: p_session_def p_run_def)
next
  case (snoc op ops)
  show ?case unfolding p_session_snoc by (rule p_step_counts [OF snoc.IH])
qed

lemma p_counters_grow_refl: "p_counters_grow m m"
  by (simp add: p_counters_grow_def)

lemma p_counters_grow_put:
  "map_of (p_accounts m) k = Some a \<Longrightarrow> p_transaction_counter a \<le> p_transaction_counter b \<Longrightarrow>
   p_counters_grow m (pm_put_account m k b)"
  by (auto simp: p_counters_grow_def map_of_pm_put_account)

lemma p_counters_grow_put_new:
  "map_of (p_accounts m) k = None \<Longrightarrow> p_accounts m' = p_accounts m \<Longrightarrow>
   p_counters_grow m (pm_put_account m' k b)"
  by (auto simp: p_counters_grow_def map_of_pm_put_account)

lemma p_keys_put_existing:
  "map_of (p_accounts m) k = Some a \<Longrightarrow>
   fst ` set (p_accounts (pm_put_account m k b)) = fst ` set (p_accounts m)"
  using key_of_lookup [of "p_accounts m" k a] by (auto simp: pm_put_account_def dom_update)

lemma p_keys_issued_put:
  "p_keys_issued m \<Longrightarrow> map_of (p_accounts m) k = Some a \<Longrightarrow> p_keys_issued (pm_put_account m k b)"
  unfolding p_keys_issued_def by (simp add: p_keys_put_existing) (simp add: pm_put_account_def)

lemma p_fresh_key:
  assumes "p_keys_issued m"
  shows "map_of (p_accounts m) (''ACC-'' @ format_d 6 (p_account_counter m + 1)) = None"
proof (rule ccontr)
  assume "map_of (p_accounts m) (''ACC-'' @ format_d 6 (p_account_counter m + 1)) \<noteq> None"
  then have "''ACC-'' @ format_d 6 (p_account_counter m + 1) \<in> fst ` set (p_accounts m)"
    by (simp add: map_of_eq_None_iff)
  then obtain i where i: "0 < i" "i \<le> p_account_counter m"
      "''ACC-'' @ format_d 6 (p_account_counter m + 1) = ''ACC-'' @ format_d 6 i"
    using assms unfolding p_keys_issued_def by blast
  then have "format_d 6 (p_account_counter m + 1) = format_d 6 i" by simp
  then have "p_account_counter m + 1 = i"
    using i by (intro format_d_inj [of _ _ 6]) simp_all
  then show False using i by simp
qed

lemma p_keys_issued_new:
  assumes "p_keys_issued m"
  shows "p_keys_issued (pm_put_account (m\<lparr>p_account_counter := p_account_counter m + 1\<rparr>)
           (''ACC-'' @ format_d 6 (p_account_counter m + 1)) acc)"
proof -
  define key where "key = ''ACC-'' @ format_d 6 (p_account_counter m + 1)"
  have c: "p_account_counter (pm_put_account (m\<lparr>p_account_counter := p_account_counter m + 1\<rparr>) key acc)
      = p_account_counter m + 1"
    by (simp add: pm_put_account_def)
  have k: "fst ` set (p_accounts (pm_put_account (m\<lparr>p_account_counter := p_account_counter m + 1\<rparr>) key acc))
      = {key} \<union> fst ` set (p_accounts m)"
    by (simp add: pm_put_account_def dom_update)
  have "\<exists>i. 0 < i \<and> i \<le> p_account_counter m + 1 \<and> k' = ''ACC-'' @ format_d 6 i"
    if "k' \<in> {key} \<union> fst ` set (p_accounts m)" for k'
  proof (cases "k' = key")
    case True
    then show ?thesis
      using assms by (intro exI [of _ "p_account_counter m + 1"]) (simp add: key_def p_keys_issued_def)
  next
    case False
    then have "k' \<in> fst ` set (p_accounts m)" using that by simp
    then obtain i where "0 < i" "i \<le> p_account_counter m" "k' = ''ACC-'' @ format_d 6 i"
      using assms unfolding p_keys_issued_def by blast
    then show ?thesis by (intro exI [of _ i]) simp
  qed
  then have "p_keys_issued (pm_put_account (m\<lparr>p_account_counter := p_account_counter m + 1\<rparr>) key acc)"
    unfolding p_keys_issued_def c k using assms by (simp add: p_keys_issued_def)
  then show ?thesis by (simp add: key_def)
qed

lemma p_step_grows_and_keys:
  assumes "p_keys_issued m"
  shows "p_counters_grow m (fst (p_step (m, fs) op)) \<and> p_keys_issued (fst (p_step (m, fs) op))"
proof -
  consider (same) "fst (p_step (m, fs) op) = m"
    | (new) acc where
        "fst (p_step (m, fs) op) =
          pm_put_account (m\<lparr>p_account_counter := p_account_counter m + 1\<rparr>)
            (''ACC-'' @ format_d 6 (p_account_counter m + 1)) acc"
    | (dep) k a amt d n where "map_of (p_accounts m) k = Some a"
        "fst (p_step (m, fs) op) = pm_put_account m k (snd (p_deposit a amt d n))"
    | (wd) k a amt d n where "map_of (p_accounts m) k = Some a"
        "fst (p_step (m, fs) op) = pm_put_account m k (snd (p_withdraw a amt d n))"
    using p_step_cases [of m fs op] by blast
  then show ?thesis
  proof cases
    case same
    then show ?thesis using assms by (simp add: p_counters_grow_refl)
  next
    case new
    have "p_counters_grow m (pm_put_account (m\<lparr>p_account_counter := p_account_counter m + 1\<rparr>)
            (''ACC-'' @ format_d 6 (p_account_counter m + 1)) acc)"
      by (rule p_counters_grow_put_new [OF p_fresh_key [OF assms]]) simp
    then show ?thesis unfolding new using p_keys_issued_new [OF assms] by simp
  next
    case dep
    then show ?thesis
      using assms by (simp add: p_counters_grow_put p_deposit_counter_mono p_keys_issued_put)
  next
    case wd
    then show ?thesis
      using assms by (simp add: p_counters_grow_put p_withdraw_counter_mono p_keys_issued_put)
  qed
qed

lemma p_session_keys_issued: "p_keys_issued (p_session path fs ops)"
proof (induction ops rule: rev_induct)
  case Nil
  then show ?case by (simp add: p_session_def p_run_def p_keys_issued_def)
next
  case (snoc op ops)
  then show ?case unfolding p_session_snoc using p_step_grows_and_keys by blast
qed

lemma p_session_grows: "p_counters_grow (p_session path fs ops) (p_session path fs (ops @ [op]))"
  unfolding p_session_snoc using p_step_grows_and_keys [OF p_session_keys_issued] by blast

section \<open>Persistence: reading back what was written\<close>

lemma type_value_round_trip: "TransactionType_of (JString (type_value t)) = Inr t"
  by (cases t) (simp_all add: TransactionType_of_def type_value_def)

lemma transaction_round_trip: "transaction_from_dict (transaction_to_dict t) = Inr t"
  by (cases "pt_description t")
     (simp_all add: transaction_from_dict_def transaction_to_dict_def and_then_def subscript_def
        get_item_def as_str_def as_float_def as_optional_str_def type_value_round_trip)

lemma transactions_round_trip:
  "map_result transaction_from_dict (map transaction_to_dict ts) = Inr ts"
  by (induction ts) (simp_all add: and_then_def transaction_round_trip)

lemma account_round_trip: "account_from_dict (account_to_dict a) = Inr a"
  by (simp add: account_from_dict_def account_to_dict_def and_then_def subscript_def
      get_item_def as_str_def as_float_def as_int_def as_list_def transactions_round_trip)

lemma accounts_round_trip:
  "map_result (\<lambda>(aid, acc_data). and_then (account_from_dict acc_data) (\<lambda>acc. Inr (aid, acc)))
     (map (\<lambda>(aid, acc). (aid, account_to_dict acc)) accs) = Inr accs"
  by (induction accs) (auto simp: and_then_def account_round_trip)

lemma load_saved:
  assumes "fs (p_data_file S) \<noteq> NotOpenable" and "p_data_file m = p_data_file S"
  shows "pm_load_from_file m (snd (pm_save_to_file S fs)) =
           (Inr (), m\<lparr>p_accounts := p_accounts S, p_account_counter := p_account_counter S\<rparr>)"
  using assms
  by (simp add: pm_load_from_file_def pm_save_to_file_def and_then_def get_item_def as_items_def
      as_int_def accounts_round_trip [unfolded and_then_def] Let_def)

section \<open>The example sessions, evaluated\<close>

lemma transfer_ops_run: "run transfer_ops = after_transfer"
  by (simp add: run_def transfer_ops_def after_transfer_def demo_ledger_def)

lemmas p_eval = p_session_def p_run_def pm_create_account_def pm_generate_account_id_def
  pm_put_account_def pm_save_to_file_def pm_deposit_def pm_withdraw_def pm_get_account_def
  p_deposit_def p_withdraw_def p_generate_transaction_id_def Let_def

lemma p_demo_session: "p_session ''accounts.json'' empty_disk p_demo_ops = p_demo_ledger"
  by (simp add: p_demo_ops_def p_demo_ledger_def p_alice_def p_bob_def empty_disk_def
      p_eval float_eval format_d_eval)

section \<open>All floats: facts\<close>

lemma py_nonneg_cases: "py_le (Finite 0) b \<longleftrightarrow> b = PosInf \<or> (\<exists>x. b = Finite x \<and> 0 \<le> x)"
  by (cases b) auto

lemma float_of_real_nonneg: "0 \<le> x \<Longrightarrow> py_le (Finite 0) (float_of_real x)"
proof -
  assume x: "0 \<le> x"
  have r: "0 \<le> round_double x" using x by (rule round_double_nonneg)
  have "\<not> round_double x \<le> - (2 ^ 1024)"
    using r by (smt (verit) zero_less_power)
  then show ?thesis
    using r by (simp add: float_of_real_def Let_def)
qed

lemma float_of_real_numeral:
  "numeral n < (2::int) ^ 53 \<Longrightarrow> float_of_real (numeral n) = Finite (numeral n)"
proof -
  assume n: "numeral n < (2::int) ^ 53"
  then have r: "round_double (numeral n) = numeral n"
    by (rule round_double_numeral)
  have "real_of_int (numeral n) < real_of_int (2 ^ 53)"
    using n by (simp only: of_int_less_iff)
  then have "(numeral n :: real) < 2 ^ 53" by simp
  also have "(2::real) ^ 53 < 2 ^ 1024" by (rule power_strict_increasing) simp_all
  finally have lt: "(numeral n :: real) < 2 ^ 1024" .
  have "- (2 ^ 1024) < (0::real)" by simp
  also have "(0::real) < numeral n" by simp
  finally have gt: "\<not> (numeral n :: real) \<le> - (2 ^ 1024)" by simp
  show ?thesis
    unfolding float_of_real_def Let_def r using lt gt by (simp only: not_le [symmetric] if_False)
qed

lemma py_add_nonneg:
  "py_le (Finite 0) b \<Longrightarrow> 0 < y \<Longrightarrow> py_le (Finite 0) (py_add b (Finite y))"
  by (auto simp: py_nonneg_cases [of b] float_of_real_nonneg)

lemma py_sub_nonneg:
  "py_le (Finite 0) b \<Longrightarrow> \<not> py_lt b (Finite y) \<Longrightarrow> py_le (Finite 0) (py_sub b (Finite y))"
  by (auto simp: py_nonneg_cases [of b] float_of_real_nonneg)

lemma py_eq_refl: "py_le (Finite 0) b \<Longrightarrow> py_eq b b"
  by (cases b) (simp_all add: py_eq_def)

section \<open>All floats: the shape of every outcome\<close>

lemma f_deposit_cases:
  "snd (f_deposit a amt d n) = a \<or>
   (\<not> py_le amt (Finite 0) \<and>
    (\<exists>t. ft_balance_after t = py_add (f_balance a) amt \<and>
      snd (f_deposit a amt d n) =
        a\<lparr>f_balance := py_add (f_balance a) amt,
          f_transaction_counter := f_transaction_counter a + 1,
          f_transactions := f_transactions a @ [t]\<rparr>))"
proof (cases "f_is_active a \<and> \<not> py_le amt (Finite 0)")
  case False
  then have "snd (f_deposit a amt d n) = a"
    by (auto simp: f_deposit_def f_validate_active_def f_validate_amount_def)
  then show ?thesis by simp
next
  case True
  define t where "t =
    \<lparr>ft_id = f_account_id a @ ''-TXN-'' @ format_d 4 (f_transaction_counter a + 1),
     ft_type = DEPOSIT, ft_amount = amt, ft_balance_after = py_add (f_balance a) amt,
     ft_timestamp = n, ft_description = d, ft_success = True\<rparr>"
  have "snd (f_deposit a amt d n) =
      a\<lparr>f_balance := py_add (f_balance a) amt,
        f_transaction_counter := f_transaction_counter a + 1,
        f_transactions := f_transactions a @ [t]\<rparr>"
    using True
    by (simp add: f_deposit_def f_validate_active_def f_validate_amount_def
        f_generate_transaction_id_def Let_def t_def)
  moreover have "ft_balance_after t = py_add (f_balance a) amt" by (simp add: t_def)
  ultimately show ?thesis using True by blast
qed

lemma f_withdraw_cases:
  "snd (f_withdraw a amt d n) = a \<or>
   (\<not> py_le amt (Finite 0) \<and> \<not> py_lt (f_balance a) amt \<and>
    (\<exists>t. ft_balance_after t = py_sub (f_balance a) amt \<and>
      snd (f_withdraw a amt d n) =
        a\<lparr>f_balance := py_sub (f_balance a) amt,
          f_transaction_counter := f_transaction_counter a + 1,
          f_transactions := f_transactions a @ [t]\<rparr>))"
proof (cases "f_is_active a \<and> \<not> py_le amt (Finite 0) \<and> \<not> py_lt (f_balance a) amt")
  case False
  then have "snd (f_withdraw a amt d n) = a"
    by (auto simp: f_withdraw_def f_validate_active_def f_validate_amount_def)
  then show ?thesis by simp
next
  case True
  define t where "t =
    \<lparr>ft_id = f_account_id a @ ''-TXN-'' @ format_d 4 (f_transaction_counter a + 1),
     ft_type = WITHDRAWAL, ft_amount = amt, ft_balance_after = py_sub (f_balance a) amt,
     ft_timestamp = n, ft_description = d, ft_success = True\<rparr>"
  have "snd (f_withdraw a amt d n) =
      a\<lparr>f_balance := py_sub (f_balance a) amt,
        f_transaction_counter := f_transaction_counter a + 1,
        f_transactions := f_transactions a @ [t]\<rparr>"
    using True
    by (simp add: f_withdraw_def f_validate_active_def f_validate_amount_def
        f_generate_transaction_id_def Let_def t_def)
  moreover have "ft_balance_after t = py_sub (f_balance a) amt" by (simp add: t_def)
  ultimately show ?thesis using True by blast
qed

lemma f_create_account_cases:
  "snd (f_create_account m own init n1 n2) = m \<or>
   (\<exists>acc. \<not> py_lt init (Finite 0) \<and> f_balance acc = init \<and>
      f_transactions acc =
        (if py_lt (Finite 0) init
         then [\<lparr>ft_id = (''ACC-'' @ format_d 6 (f_account_counter m + 1)) @ ''-TXN-0000'',
                ft_type = DEPOSIT, ft_amount = init, ft_balance_after = init,
                ft_timestamp = n2, ft_description = Some ''Initial deposit'',
                ft_success = True\<rparr>]
         else []) \<and>
      snd (f_create_account m own init n1 n2) =
        f_put_account (m\<lparr>f_account_counter := f_account_counter m + 1\<rparr>)
          (''ACC-'' @ format_d 6 (f_account_counter m + 1)) acc)"
proof (cases "py_lt init (Finite 0)")
  case True
  then show ?thesis by (simp add: f_create_account_def)
next
  case False
  define acc where "acc =
    \<lparr>f_account_id = ''ACC-'' @ format_d 6 (f_account_counter m + 1), f_owner = own,
     f_balance = init, f_is_active = True,
     f_transactions =
       (if py_lt (Finite 0) init
        then [\<lparr>ft_id = (''ACC-'' @ format_d 6 (f_account_counter m + 1)) @ ''-TXN-0000'',
               ft_type = DEPOSIT, ft_amount = init, ft_balance_after = init,
               ft_timestamp = n2, ft_description = Some ''Initial deposit'',
               ft_success = True\<rparr>]
        else []),
     f_created_at = n1, f_transaction_counter = 0\<rparr>"
  have "snd (f_create_account m own init n1 n2) =
      f_put_account (m\<lparr>f_account_counter := f_account_counter m + 1\<rparr>)
        (''ACC-'' @ format_d 6 (f_account_counter m + 1)) acc"
    using False by (simp add: f_create_account_def f_generate_account_id_def Let_def acc_def)
  moreover have "f_balance acc = init" by (simp add: acc_def)
  moreover have "f_transactions acc =
        (if py_lt (Finite 0) init
         then [\<lparr>ft_id = (''ACC-'' @ format_d 6 (f_account_counter m + 1)) @ ''-TXN-0000'',
                ft_type = DEPOSIT, ft_amount = init, ft_balance_after = init,
                ft_timestamp = n2, ft_description = Some ''Initial deposit'',
                ft_success = True\<rparr>]
         else [])"
    by (simp add: acc_def)
  ultimately show ?thesis using False by blast
qed

lemma map_of_f_put_account:
  "map_of (f_accounts (f_put_account m aid a)) = (map_of (f_accounts m))(aid \<mapsto> a)"
  by (simp add: f_put_account_def update_conv')

lemma f_transfer_cases:
  "snd (f_transfer m f t amt d n1 n2) = m \<or>
   (\<exists>A. map_of (f_accounts m) f = Some A \<and>
     (snd (f_transfer m f t amt d n1 n2) =
        f_put_account m f (snd (f_withdraw A amt (transfer_out_descr t d) n1)) \<or>
      (\<exists>X. map_of (f_accounts (f_put_account m f (snd (f_withdraw A amt (transfer_out_descr t d) n1)))) t
             = Some X \<and>
        snd (f_transfer m f t amt d n1 n2) =
          f_put_account (f_put_account m f (snd (f_withdraw A amt (transfer_out_descr t d) n1))) t
            (snd (f_deposit X amt (transfer_in_descr f d) n2)))))"
  by (auto simp: f_transfer_def f_get_account_def Let_def transfer_out_descr_def transfer_in_descr_def
      map_of_f_put_account split: option.splits sum.splits prod.splits)

section \<open>All floats: the balance agrees with the log when the amounts are finite\<close>

lemma f_balance_agrees_deposit:
  assumes "f_balance_agrees a" and "is_finite amt"
  shows "f_balance_agrees (snd (f_deposit a amt d n))"
proof -
  obtain y where y: "amt = Finite y"
    using assms(2) by (cases amt) (simp_all add: is_finite_def)
  consider "snd (f_deposit a amt d n) = a"
    | t where "\<not> py_le amt (Finite 0)" "ft_balance_after t = py_add (f_balance a) amt"
        "snd (f_deposit a amt d n) =
          a\<lparr>f_balance := py_add (f_balance a) amt,
            f_transaction_counter := f_transaction_counter a + 1,
            f_transactions := f_transactions a @ [t]\<rparr>"
    using f_deposit_cases [of a amt d n] by blast
  then show ?thesis
  proof cases
    case 1
    then show ?thesis using assms(1) by simp
  next
    case 2
    have "0 < y" using 2(1) y by simp
    moreover have "py_le (Finite 0) (f_balance a)"
      using assms(1) by (simp add: f_balance_agrees_def)
    ultimately have "py_le (Finite 0) (py_add (f_balance a) amt)"
      unfolding y by (rule py_add_nonneg [rotated])
    then show ?thesis
      using 2(2,3) by (simp add: f_balance_agrees_def py_eq_refl)
  qed
qed

lemma f_balance_agrees_withdraw:
  assumes "f_balance_agrees a" and "is_finite amt"
  shows "f_balance_agrees (snd (f_withdraw a amt d n))"
proof -
  obtain y where y: "amt = Finite y"
    using assms(2) by (cases amt) (simp_all add: is_finite_def)
  consider "snd (f_withdraw a amt d n) = a"
    | t where "\<not> py_lt (f_balance a) amt" "ft_balance_after t = py_sub (f_balance a) amt"
        "snd (f_withdraw a amt d n) =
          a\<lparr>f_balance := py_sub (f_balance a) amt,
            f_transaction_counter := f_transaction_counter a + 1,
            f_transactions := f_transactions a @ [t]\<rparr>"
    using f_withdraw_cases [of a amt d n] by blast
  then show ?thesis
  proof cases
    case 1
    then show ?thesis using assms(1) by simp
  next
    case 2
    have "py_le (Finite 0) (f_balance a)"
      using assms(1) by (simp add: f_balance_agrees_def)
    then have "py_le (Finite 0) (py_sub (f_balance a) amt)"
      using 2(1) unfolding y by (rule py_sub_nonneg)
    then show ?thesis
      using 2(2,3) by (simp add: f_balance_agrees_def py_eq_refl)
  qed
qed

lemma f_balance_agrees_created:
  assumes "is_finite init"
    and "\<not> py_lt init (Finite 0)" and "f_balance acc = init"
    and "f_transactions acc = (if py_lt (Finite 0) init then [t] else [])"
    and "ft_balance_after t = init"
  shows "f_balance_agrees acc"
proof -
  obtain i where i: "init = Finite i"
    using assms(1) by (cases init) (simp_all add: is_finite_def)
  show ?thesis
    using assms(2-5) unfolding i by (auto simp: f_balance_agrees_def py_eq_def)
qed

lemma f_put_account_every:
  assumes inv: "\<forall>a \<in> snd ` set (f_accounts m). P a" and b: "P b"
  shows "\<forall>a \<in> snd ` set (f_accounts (f_put_account m k b)). P a"
proof -
  have "snd ` set (f_accounts (f_put_account m k b)) \<subseteq> insert b (snd ` set (f_accounts m))"
    by (simp add: f_put_account_def values_update)
  then show ?thesis using inv b by blast
qed

lemma f_step_balance_agrees:
  assumes op: "finite_amount op"
    and inv: "\<forall>a \<in> snd ` set (f_accounts m). f_balance_agrees a"
  shows "\<forall>a \<in> snd ` set (f_accounts (f_step m op)). f_balance_agrees a"
proof (cases op)
  case (FCreateAccount own init n1 n2)
  have fin: "is_finite init" using op FCreateAccount by simp
  consider (same) "snd (f_create_account m own init n1 n2) = m"
    | (new) acc where "\<not> py_lt init (Finite 0)" "f_balance acc = init"
        "f_transactions acc =
          (if py_lt (Finite 0) init
           then [\<lparr>ft_id = (''ACC-'' @ format_d 6 (f_account_counter m + 1)) @ ''-TXN-0000'',
                  ft_type = DEPOSIT, ft_amount = init, ft_balance_after = init,
                  ft_timestamp = n2, ft_description = Some ''Initial deposit'',
                  ft_success = True\<rparr>]
           else [])"
        "snd (f_create_account m own init n1 n2) =
          f_put_account (m\<lparr>f_account_counter := f_account_counter m + 1\<rparr>)
            (''ACC-'' @ format_d 6 (f_account_counter m + 1)) acc"
    using f_create_account_cases [of m own init n1 n2] by blast
  then show ?thesis
  proof cases
    case same
    then show ?thesis using inv FCreateAccount by simp
  next
    case new
    have acc: "f_balance_agrees acc"
      by (rule f_balance_agrees_created [OF fin new(1,2,3)]) simp
    have m': "\<forall>a \<in> snd ` set (f_accounts (m\<lparr>f_account_counter := f_account_counter m + 1\<rparr>)).
        f_balance_agrees a"
      using inv by simp
    show ?thesis
      unfolding FCreateAccount f_step.simps new(4) by (rule f_put_account_every [OF m' acc])
  qed
next
  case (FDeposit k amt d n)
  have fin: "is_finite amt" using op FDeposit by simp
  show ?thesis
  proof (cases "map_of (f_accounts m) k")
    case None
    then show ?thesis using inv FDeposit by simp
  next
    case (Some a)
    then have "f_balance_agrees a" using inv lookup_in_values by fastforce
    then show ?thesis
      using FDeposit Some f_put_account_every [OF inv f_balance_agrees_deposit [OF _ fin]] by simp
  qed
next
  case (FWithdraw k amt d n)
  have fin: "is_finite amt" using op FWithdraw by simp
  show ?thesis
  proof (cases "map_of (f_accounts m) k")
    case None
    then show ?thesis using inv FWithdraw by simp
  next
    case (Some a)
    then have "f_balance_agrees a" using inv lookup_in_values by fastforce
    then show ?thesis
      using FWithdraw Some f_put_account_every [OF inv f_balance_agrees_withdraw [OF _ fin]] by simp
  qed
next
  case (FSetActive k b)
  show ?thesis
  proof (cases "map_of (f_accounts m) k")
    case None
    then show ?thesis using inv FSetActive by simp
  next
    case (Some a)
    then have "f_balance_agrees a" using inv lookup_in_values by fastforce
    then have "f_balance_agrees (a\<lparr>f_is_active := b\<rparr>)"
      unfolding f_balance_agrees_def by (cases "f_transactions a = []") simp_all
    then show ?thesis
      using FSetActive Some f_put_account_every [OF inv] by simp
  qed
next
  case (FTransfer f t amt d n1 n2)
  have fin: "is_finite amt" using op FTransfer by simp
  consider (same) "snd (f_transfer m f t amt d n1 n2) = m"
    | (one) A where "map_of (f_accounts m) f = Some A"
        "snd (f_transfer m f t amt d n1 n2) =
           f_put_account m f (snd (f_withdraw A amt (transfer_out_descr t d) n1))"
    | (two) A X where "map_of (f_accounts m) f = Some A"
        "map_of (f_accounts (f_put_account m f (snd (f_withdraw A amt (transfer_out_descr t d) n1)))) t = Some X"
        "snd (f_transfer m f t amt d n1 n2) =
          f_put_account (f_put_account m f (snd (f_withdraw A amt (transfer_out_descr t d) n1))) t
            (snd (f_deposit X amt (transfer_in_descr f d) n2))"
    using f_transfer_cases [of m f t amt d n1 n2] by blast
  then show ?thesis
  proof cases
    case same
    then show ?thesis using inv FTransfer by simp
  next
    case one
    have "f_balance_agrees A" using one(1) inv lookup_in_values by fastforce
    then show ?thesis
      using one(2) FTransfer f_put_account_every [OF inv f_balance_agrees_withdraw [OF _ fin]] by simp
  next
    case two
    have "f_balance_agrees A" using two(1) inv lookup_in_values by fastforce
    then have 1: "\<forall>a \<in> snd ` set (f_accounts (f_put_account m f
        (snd (f_withdraw A amt (transfer_out_descr t d) n1)))). f_balance_agrees a"
      using f_put_account_every [OF inv f_balance_agrees_withdraw [OF _ fin]] by simp
    then have "f_balance_agrees X" using two(2) lookup_in_values by fastforce
    then show ?thesis
      using two(3) FTransfer f_put_account_every [OF 1 f_balance_agrees_deposit [OF _ fin]] by simp
  qed
qed

lemma f_run_snoc: "f_run (ops @ [op]) = f_step (f_run ops) op"
  by (simp add: f_run_def)

lemma f_run_balance_agrees:
  "list_all finite_amount ops \<Longrightarrow> \<forall>a \<in> snd ` set (f_accounts (f_run ops)). f_balance_agrees a"
proof (induction ops rule: rev_induct)
  case Nil
  then show ?case by (simp add: f_run_def f_new_manager_def)
next
  case (snoc op ops)
  then have "finite_amount op" "list_all finite_amount ops" by simp_all
  then show ?case
    unfolding f_run_snoc using snoc.IH by (intro f_step_balance_agrees) simp_all
qed

section \<open>All floats: agreement with the finite embedding, and the examples evaluated\<close>

lemma py_add_finite:
  "\<bar>round_double (x + y)\<bar> < 2 ^ 1024 \<Longrightarrow> py_add (Finite x) (Finite y) = Finite (float_add x y)"
  by (auto simp: float_of_real_def float_add_def Let_def)

lemma py_sub_finite:
  "\<bar>round_double (x - y)\<bar> < 2 ^ 1024 \<Longrightarrow> py_sub (Finite x) (Finite y) = Finite (float_sub x y)"
  by (auto simp: float_of_real_def float_sub_def Let_def)

lemmas f_ledger_eval = f_run_def f_new_manager_def f_create_account_def f_generate_account_id_def
  f_put_account_def f_deposit_def f_withdraw_def f_validate_active_def f_validate_amount_def
  f_generate_transaction_id_def F_InsufficientFundsError_def f_transfer_def f_get_account_def
  description_suffix_def Let_def

lemma nan_ops_run:
  "f_run nan_ops =
     \<lparr>f_accounts = [(''ACC-000001'', f_alice_nan), (''ACC-000002'', f_eve)],
      f_account_counter = 2\<rparr>"
  by (simp add: nan_ops_def f_alice_nan_def f_eve_def f_ledger_eval format_d_eval)

lemma f_transfer_ops_alice:
  "map_of (f_accounts (f_run f_transfer_ops)) ''ACC-000001'' = Some f_alice_800"
  by (simp add: f_transfer_ops_def f_alice_800_def f_ledger_eval format_d_eval
      float_of_real_numeral)

lemma inf_ops_run:
  "f_run inf_ops = \<lparr>f_accounts = [(''ACC-000001'', f_alice_inf)], f_account_counter = 1\<rparr>"
  by (simp add: inf_ops_def f_alice_inf_def f_ledger_eval format_d_eval)

text \<open>
  On finite amounts without overflow, \<^verbatim>\<open>deposit\<close> and \<^verbatim>\<open>withdraw\<close> over all floats do what
  the finite embedding does.
\<close>

lemma f_deposit_lift:
  assumes "\<bar>round_double (balance a + amt)\<bar> < 2 ^ 1024"
  shows "f_deposit (lift_account a) (Finite amt) d n =
           (map_sum lift_error lift_transaction (fst (deposit a amt d n)),
            lift_account (snd (deposit a amt d n)))"
proof (cases "is_active a")
  case False
  then show ?thesis
    by (simp add: deposit_inactive f_deposit_def f_validate_active_def lift_account_def
        lift_error_def)
next
  case True
  show ?thesis
  proof (cases "amt \<le> 0")
    case True
    then show ?thesis
      using \<open>is_active a\<close>
      by (simp add: deposit_invalid f_deposit_def f_validate_active_def f_validate_amount_def
          lift_account_def lift_error_def)
  next
    case False
    then show ?thesis
      using \<open>is_active a\<close> py_add_finite [OF assms]
      by (simp add: deposit_ok f_deposit_def f_validate_active_def f_validate_amount_def
          f_generate_transaction_id_def Let_def lift_account_def lift_transaction_def
          deposit_txn_def)
  qed
qed

lemma f_withdraw_lift:
  assumes "\<bar>round_double (balance a - amt)\<bar> < 2 ^ 1024"
    and short: "\<bar>round_double (amt - balance a)\<bar> < 2 ^ 1024"
  shows "f_withdraw (lift_account a) (Finite amt) d n =
           (map_sum lift_error lift_transaction (fst (withdraw a amt d n)),
            lift_account (snd (withdraw a amt d n)))"
proof (cases "is_active a")
  case False
  then show ?thesis
    by (simp add: withdraw_inactive f_withdraw_def f_validate_active_def lift_account_def
        lift_error_def)
next
  case True
  show ?thesis
  proof (cases "amt \<le> 0")
    case True
    then show ?thesis
      using \<open>is_active a\<close>
      by (simp add: withdraw_invalid f_withdraw_def f_validate_active_def f_validate_amount_def
          lift_account_def lift_error_def)
  next
    case False
    show ?thesis
    proof (cases "balance a < amt")
      case True
      then show ?thesis
        using False \<open>is_active a\<close> py_sub_finite [OF short]
        by (simp add: withdraw_insufficient f_withdraw_def f_validate_active_def
            f_validate_amount_def F_InsufficientFundsError_def lift_account_def lift_error_def)
    next
      case nlt: False
      then show ?thesis
        using False \<open>is_active a\<close> py_sub_finite [OF assms(1)]
        by (simp add: withdraw_ok f_withdraw_def f_validate_active_def f_validate_amount_def
            f_generate_transaction_id_def Let_def lift_account_def lift_transaction_def
            withdrawal_txn_def)
    qed
  qed
qed

section \<open>Claims about the ledger as a whole\<close>

text \<open>
  C1 as stated fails. \<^verbatim>\<open>create_account("Eve", float('nan'))\<close> passes both comparisons
  of the initial deposit and leaves an account with an empty log whose balance is NaN,
  which is neither \<^verbatim>\<open>== 0\<close> nor \<^verbatim>\<open>>= 0\<close>. And \<^verbatim>\<open>withdraw(float('nan'))\<close> on Alice's
  account with 1000 passes \<^verbatim>\<open>amount <= 0\<close> and \<^verbatim>\<open>amount > balance\<close> and leaves the balance
  NaN, which is not \<^verbatim>\<open>==\<close> the \<^verbatim>\<open>balance_after\<close> of the last transaction (NaN as well)
  and not \<^verbatim>\<open>>= 0\<close>. Infinite amounts do the same in two steps: after
  \<^verbatim>\<open>deposit(float('inf'))\<close> the balance is infinite, \<^verbatim>\<open>withdraw(float('inf'))\<close> is not
  more than the balance, and \<^verbatim>\<open>inf - inf\<close> is NaN.
\<close>

theorem balance_nan_counterexample:
  "map_of (f_accounts (f_run nan_ops)) ''ACC-000002'' = Some f_eve \<and>
   f_transactions f_eve = [] \<and> \<not> py_eq (f_balance f_eve) (Finite 0) \<and>
   \<not> py_le (Finite 0) (f_balance f_eve) \<and>
   map_of (f_accounts (f_run nan_ops)) ''ACC-000001'' = Some f_alice_nan \<and>
   f_transactions f_alice_nan \<noteq> [] \<and>
   \<not> py_eq (f_balance f_alice_nan) (ft_balance_after (last (f_transactions f_alice_nan))) \<and>
   \<not> py_le (Finite 0) (f_balance f_alice_nan) \<and>
   map_of (f_accounts (f_run inf_ops)) ''ACC-000001'' = Some f_alice_inf \<and>
   f_transactions f_alice_inf \<noteq> [] \<and>
   \<not> py_eq (f_balance f_alice_inf) (ft_balance_after (last (f_transactions f_alice_inf))) \<and>
   \<not> py_le (Finite 0) (f_balance f_alice_inf)"
  by (simp add: nan_ops_run inf_ops_run)
     (simp add: f_eve_def f_alice_nan_def f_alice_inf_def py_eq_def)

text \<open>
  C1, amended. After any sequence of ledger and account operations (creating accounts,
  deposits, withdrawals, transfers, setting \<^verbatim>\<open>is_active\<close>; also calls that raise) whose
  amounts are finite floats, the balance of every account of the ledger \<^verbatim>\<open>==\<close> the
  \<^verbatim>\<open>balance_after\<close> of the last transaction in its log, or 0 if the log is empty, and it is
  \<^verbatim>\<open>>= 0\<close>; this holds also when a sum overflows to infinity.
\<close>

theorem balance_agrees_for_finite_amounts:
  assumes "list_all finite_amount ops" and "map_of (f_accounts (f_run ops)) aid = Some a"
  shows "py_eq (f_balance a)
           (if f_transactions a = [] then Finite 0
            else ft_balance_after (last (f_transactions a))) \<and>
         py_le (Finite 0) (f_balance a)"
proof -
  have "\<forall>a \<in> snd ` set (f_accounts (f_run ops)). f_balance_agrees a"
    using assms(1) by (rule f_run_balance_agrees)
  then have "f_balance_agrees a"
    using assms(2) lookup_in_values by fastforce
  then show ?thesis by (simp add: f_balance_agrees_def)
qed

theorem balance_agrees_for_finite_amounts_witness:
  "list_all finite_amount f_transfer_ops \<and>
   map_of (f_accounts (f_run f_transfer_ops)) ''ACC-000001'' = Some f_alice_800 \<and>
   py_eq (f_balance f_alice_800)
     (if f_transactions f_alice_800 = [] then Finite 0
      else ft_balance_after (last (f_transactions f_alice_800))) \<and>
   py_le (Finite 0) (f_balance f_alice_800) \<and> f_balance f_alice_800 = Finite 800"
proof -
  have 1: "list_all finite_amount f_transfer_ops"
    by (simp add: f_transfer_ops_def is_finite_def)
  have 2: "f_balance f_alice_800 = Finite 800"
    by (simp add: f_alice_800_def)
  show ?thesis
    using balance_agrees_for_finite_amounts [OF 1 f_transfer_ops_alice] 1 2 f_transfer_ops_alice
    by blast
qed

text \<open>
  C8 as stated fails: after \<^verbatim>\<open>create_account("Alice", 1000)\<close> Alice's log holds one
  transaction, the opening deposit, and her transaction counter is 0.
\<close>

theorem transaction_counter_counterexample:
  "map_of (accounts demo_ledger) ''ACC-000001'' = Some alice \<and>
   length (transactions alice) = 1 \<and> transaction_counter alice = 0 \<and>
   transaction_counter alice \<noteq> int (length (transactions alice))"
  by (simp add: demo_ledger_accounts) (simp add: alice_def)

text \<open>
  C8, amended. In every ledger reached through the public operations, of either bank, the
  transaction counter of an account is the number of transactions in its log other than
  the opening record \<^verbatim>\<open>TXN-0000\<close>, that is, of those minted by \<^verbatim>\<open>deposit\<close> and
  \<^verbatim>\<open>withdraw\<close>; and one more operation leaves the account in the ledger with a counter
  that is not smaller.
\<close>

theorem transaction_counter_counts_minted:
  "(map_of (accounts (run ops)) aid = Some a \<longrightarrow>
      transaction_counter a = int (length (minted a)) \<and>
      (\<exists>a'. map_of (accounts (run (ops @ [op]))) aid = Some a' \<and>
            transaction_counter a \<le> transaction_counter a')) \<and>
   (map_of (p_accounts (p_session path fs pops)) paid = Some pa \<longrightarrow>
      p_transaction_counter pa = int (length (p_minted pa)) \<and>
      (\<exists>pa'. map_of (p_accounts (p_session path fs (pops @ [pop]))) paid = Some pa' \<and>
            p_transaction_counter pa \<le> p_transaction_counter pa'))"
proof (intro conjI impI)
  assume a: "map_of (accounts (run ops)) aid = Some a"
  then show "transaction_counter a = int (length (minted a))"
    using counter_counts_run [of ops] lookup_in_values by fastforce
  have "counters_grow (run ops) (run (ops @ [op]))"
    unfolding run_snoc by (rule step_grows [OF run_keys_issued])
  then show "\<exists>a'. map_of (accounts (run (ops @ [op]))) aid = Some a' \<and>
      transaction_counter a \<le> transaction_counter a'"
    using a unfolding counters_grow_def by blast
next
  assume pa: "map_of (p_accounts (p_session path fs pops)) paid = Some pa"
  then show "p_transaction_counter pa = int (length (p_minted pa))"
    using p_session_counts [of path fs pops] lookup_in_values by fastforce
  show "\<exists>pa'. map_of (p_accounts (p_session path fs (pops @ [pop]))) paid = Some pa' \<and>
      p_transaction_counter pa \<le> p_transaction_counter pa'"
    using pa p_session_grows [of path fs pops pop] unfolding p_counters_grow_def by blast
qed

theorem transaction_counter_counts_minted_witness:
  "map_of (accounts (run transfer_ops)) ''ACC-000001'' = Some alice_800 \<and>
   transaction_counter alice_800 = int (length (minted alice_800)) \<and>
   length (minted alice_800) = 1 \<and> length (transactions alice_800) = 2 \<and>
   (\<exists>a'. map_of (accounts (run (transfer_ops @ [bonus]))) ''ACC-000001'' = Some a' \<and>
         transaction_counter alice_800 \<le> transaction_counter a') \<and>
   map_of (p_accounts (p_session ''accounts.json'' empty_disk p_demo_ops)) ''ACC-000001'' = Some p_alice \<and>
   p_transaction_counter p_alice = int (length (p_minted p_alice)) \<and>
   length (p_minted p_alice) = 2 \<and> length (p_transactions p_alice) = 3 \<and>
   (\<exists>pa'. map_of (p_accounts (p_session ''accounts.json'' empty_disk (p_demo_ops @ [p_bonus])))
            ''ACC-000001'' = Some pa' \<and>
         p_transaction_counter p_alice \<le> p_transaction_counter pa')"
proof -
  have 1: "map_of (accounts (run transfer_ops)) ''ACC-000001'' = Some alice_800"
    by (simp add: transfer_ops_run after_transfer_accounts)
  have 2: "map_of (p_accounts (p_session ''accounts.json'' empty_disk p_demo_ops)) ''ACC-000001''
      = Some p_alice"
    by (simp add: p_demo_session p_demo_ledger_def)
  have 3: "length (minted alice_800) = 1" "length (transactions alice_800) = 2"
    "length (p_minted p_alice) = 2" "length (p_transactions p_alice) = 3"
    by (simp_all add: minted_def is_opening_def alice_800_def alice_def p_minted_def
        p_is_opening_def p_alice_def)
  note t = transaction_counter_counts_minted [of transfer_ops "''ACC-000001''" alice_800 bonus
        "''accounts.json''" empty_disk p_demo_ops "''ACC-000001''" p_alice p_bonus]
  show ?thesis
    using t 1 2 3 by blast
qed

section \<open>Claims about single accounts and transfers\<close>

text \<open>
  C2. On an active account whose balance is not negative (as it is for every account of
  a ledger), \<^verbatim>\<open>withdraw\<close> of an amount above the balance raises \<^verbatim>\<open>InsufficientFundsError\<close> carrying
  the balance, the amount and the shortfall \<^verbatim>\<open>amount - balance\<close>, and the account is left as
  it was: balance, transaction log and transaction counter.
\<close>

theorem withdraw_more_than_balance:
  assumes "is_active a" and "0 \<le> balance a" and "balance a < amt"
  shows "withdraw a amt descr now =
           (Inl (InsufficientFunds (balance a) amt (float_sub amt (balance a))), a)"
  using assms by (intro withdraw_insufficient) auto

theorem withdraw_more_than_balance_witness:
  "is_active charlie \<and> 0 \<le> balance charlie \<and> balance charlie < 500 \<and>
   withdraw charlie 500 None ''2024-01-02T10:00:00'' = (Inl (InsufficientFunds 100 500 400), charlie)"
  using withdraw_more_than_balance [of charlie 500 None "''2024-01-02T10:00:00''"]
  by (simp add: charlie_def float_eval)

text \<open>
  C4. With active accounts A (balance 1000) and B (balance 500), \<^verbatim>\<open>transfer(A, B, 200)\<close>
  succeeds and returns the withdrawal and the deposit in that order, with
  \<^verbatim>\<open>balance_after\<close> 800 and 700; A ends with 800 and B with 700.
\<close>

theorem transfer_scenario:
  assumes "map_of (accounts m) from_id = Some A" and "map_of (accounts m) to_id = Some B"
    and "is_active A" and "is_active B" and "balance A = 1000" and "balance B = 500"
  shows "\<exists>withdrawal dep m'.
           transfer m from_id to_id 200 descr now_w now_d = (Inr (withdrawal, dep), m') \<and>
           t_type withdrawal = WITHDRAWAL \<and> t_balance_after withdrawal = 800 \<and>
           t_type dep = DEPOSIT \<and> t_balance_after dep = 700 \<and>
           map_option balance (map_of (accounts m') from_id) = Some 800 \<and>
           map_option balance (map_of (accounts m') to_id) = Some 700"
proof -
  have ne: "to_id \<noteq> from_id" using assms by auto
  let ?w = "withdrawal_txn A 200 (transfer_out_descr to_id descr) now_w"
  let ?d = "deposit_txn B 200 (transfer_in_descr from_id descr) now_d"
  let ?A' = "A\<lparr>balance := float_sub (balance A) 200,
                 transaction_counter := transaction_counter A + 1,
                 transactions := transactions A @ [?w]\<rparr>"
  let ?B' = "B\<lparr>balance := float_add (balance B) 200,
                 transaction_counter := transaction_counter B + 1,
                 transactions := transactions B @ [?d]\<rparr>"
  have w: "withdraw A 200 (Some (''Transfer to '' @ to_id @ description_suffix descr)) now_w =
      (Inr ?w, ?A')"
    using assms by (simp add: withdraw_ok transfer_out_descr_def)
  have d: "deposit B 200 (Some (''Transfer from '' @ from_id @ description_suffix descr)) now_d =
      (Inr ?d, ?B')"
    using assms by (simp add: deposit_ok transfer_in_descr_def)
  have t: "transfer m from_id to_id 200 descr now_w now_d =
      (Inr (?w, ?d), put_account (put_account m from_id ?A') to_id ?B')"
    using assms ne w d by (simp add: transfer_def get_account_def)
  have "t_balance_after ?w = 800" "t_balance_after ?d = 700"
    using assms by (simp_all add: withdrawal_txn_def deposit_txn_def float_eval)
  moreover have "t_type ?w = WITHDRAWAL" "t_type ?d = DEPOSIT"
    by (simp_all add: withdrawal_txn_def deposit_txn_def)
  moreover have "map_option balance
      (map_of (accounts (put_account (put_account m from_id ?A') to_id ?B')) from_id) = Some 800"
    using assms ne by (simp add: map_of_put_account float_eval)
  moreover have "map_option balance
      (map_of (accounts (put_account (put_account m from_id ?A') to_id ?B')) to_id) = Some 700"
    using assms by (simp add: map_of_put_account float_eval)
  ultimately show ?thesis using t by blast
qed

theorem transfer_scenario_witness:
  "map_of (accounts demo_ledger) ''ACC-000001'' = Some alice \<and>
   map_of (accounts demo_ledger) ''ACC-000002'' = Some bob \<and>
   is_active alice \<and> is_active bob \<and> balance alice = 1000 \<and> balance bob = 500 \<and>
   (\<exists>withdrawal dep m'.
      transfer demo_ledger ''ACC-000001'' ''ACC-000002'' 200 (Some ''Rent payment'')
        ''2024-01-03T12:00:00'' ''2024-01-03T12:00:01'' = (Inr (withdrawal, dep), m') \<and>
      t_type withdrawal = WITHDRAWAL \<and> t_balance_after withdrawal = 800 \<and>
      t_type dep = DEPOSIT \<and> t_balance_after dep = 700 \<and>
      map_option balance (map_of (accounts m') ''ACC-000001'') = Some 800 \<and>
      map_option balance (map_of (accounts m') ''ACC-000002'') = Some 700)"
  using transfer_scenario [of demo_ledger "''ACC-000001''" alice "''ACC-000002''" bob
      "Some ''Rent payment''" "''2024-01-03T12:00:00''" "''2024-01-03T12:00:01''"]
  by (simp add: demo_ledger_accounts alice_def bob_def)

text \<open>
  C5. When the source is active with \<^verbatim>\<open>balance >= amount > 0\<close> and the destination is
  inactive, \<^verbatim>\<open>transfer\<close> raises \<^verbatim>\<open>AccountInactiveError\<close> for the destination after the
  withdrawal has been made: the source is debited and has the withdrawal in its log, the
  destination is unchanged.
\<close>

theorem transfer_partial_failure:
  assumes "map_of (accounts m) from_id = Some A" and "map_of (accounts m) to_id = Some B"
    and "is_active A" and "\<not> is_active B" and "0 < amt" and "amt \<le> balance A"
  shows "transfer m from_id to_id amt descr now_w now_d =
           (Inl (AccountInactiveError (account_id B)),
            put_account m from_id
              (A\<lparr>balance := float_sub (balance A) amt,
                 transaction_counter := transaction_counter A + 1,
                 transactions := transactions A @
                   [withdrawal_txn A amt (transfer_out_descr to_id descr) now_w]\<rparr>)) \<and>
         map_of (accounts (snd (transfer m from_id to_id amt descr now_w now_d))) to_id = Some B"
proof -
  have ne: "to_id \<noteq> from_id" using assms by auto
  let ?A' = "A\<lparr>balance := float_sub (balance A) amt,
                 transaction_counter := transaction_counter A + 1,
                 transactions := transactions A @
                   [withdrawal_txn A amt (transfer_out_descr to_id descr) now_w]\<rparr>"
  have w: "withdraw A amt (Some (''Transfer to '' @ to_id @ description_suffix descr)) now_w =
      (Inr (withdrawal_txn A amt (transfer_out_descr to_id descr) now_w), ?A')"
    using assms by (simp add: withdraw_ok transfer_out_descr_def)
  have B: "map_of (accounts (put_account m from_id ?A')) to_id = Some B"
    using assms ne by (simp add: map_of_put_account)
  have "transfer m from_id to_id amt descr now_w now_d =
      (Inl (AccountInactiveError (account_id B)), put_account m from_id ?A')"
    using assms ne w by (simp add: transfer_def get_account_def deposit_inactive put_account_same [OF B])
  then show ?thesis using B by simp
qed

theorem transfer_partial_failure_witness:
  "map_of (accounts bob_closed_ledger) ''ACC-000001'' = Some alice \<and>
   map_of (accounts bob_closed_ledger) ''ACC-000002'' = Some (bob\<lparr>is_active := False\<rparr>) \<and>
   is_active alice \<and> \<not> is_active (bob\<lparr>is_active := False\<rparr>) \<and> (0::real) < 200 \<and>
   200 \<le> balance alice \<and>
   transfer bob_closed_ledger ''ACC-000001'' ''ACC-000002'' 200 None
       ''2024-01-03T12:00:00'' ''2024-01-03T12:00:01'' =
     (Inl (AccountInactiveError ''ACC-000002''),
      \<lparr>accounts =
         [(''ACC-000001'',
           alice\<lparr>balance := 800, transaction_counter := 1,
             transactions := transactions alice @
               [\<lparr>t_id = ''ACC-000001-TXN-0001'', t_type = WITHDRAWAL, t_amount = 200,
                 t_balance_after = 800, t_timestamp = ''2024-01-03T12:00:00'',
                 t_description = Some ''Transfer to ACC-000002'', t_success = True\<rparr>]\<rparr>),
          (''ACC-000002'', bob\<lparr>is_active := False\<rparr>)],
       account_counter = 2\<rparr>)"
  using transfer_partial_failure [of bob_closed_ledger "''ACC-000001''" alice "''ACC-000002''"
      "bob\<lparr>is_active := False\<rparr>" 200 None "''2024-01-03T12:00:00''" "''2024-01-03T12:00:01''"]
  by (simp add: bob_closed_ledger_accounts alice_def bob_def put_account_def float_eval
      withdrawal_txn_def transfer_out_descr_def description_suffix_def format_d_eval)

text \<open>
  C6. Between two active accounts, \<^verbatim>\<open>transfer\<close> of more than the source's balance (which
  is not negative) raises \<^verbatim>\<open>InsufficientFundsError\<close> and leaves the whole ledger as it was;
  with a balance of 800 and an amount of 5000 the shortfall is 4200.
\<close>

theorem transfer_insufficient_funds:
  assumes "map_of (accounts m) from_id = Some A" and "map_of (accounts m) to_id = Some B"
    and "is_active A" and "is_active B" and "0 \<le> balance A" and "balance A < amt"
  shows "transfer m from_id to_id amt descr now_w now_d =
           (Inl (InsufficientFunds (balance A) amt (float_sub amt (balance A))), m) \<and>
         (balance A = 800 \<and> amt = 5000 \<longrightarrow> float_sub amt (balance A) = 4200)"
proof -
  have "0 < amt" using assms by simp
  then have "withdraw A amt (Some (''Transfer to '' @ to_id @ description_suffix descr)) now_w =
      (Inl (InsufficientFunds (balance A) amt (float_sub amt (balance A))), A)"
    using assms by (simp add: withdraw_insufficient)
  then have "transfer m from_id to_id amt descr now_w now_d =
           (Inl (InsufficientFunds (balance A) amt (float_sub amt (balance A))), m)"
    using assms by (simp add: transfer_def get_account_def put_account_same)
  then show ?thesis by (simp add: float_eval)
qed

theorem transfer_insufficient_funds_witness:
  "map_of (accounts after_transfer) ''ACC-000001'' = Some alice_800 \<and>
   map_of (accounts after_transfer) ''ACC-000002'' = Some bob_700 \<and>
   is_active alice_800 \<and> is_active bob_700 \<and> 0 \<le> balance alice_800 \<and>
   balance alice_800 < 5000 \<and>
   transfer after_transfer ''ACC-000001'' ''ACC-000002'' 5000 None
       ''2024-01-04T08:00:00'' ''2024-01-04T08:00:01'' =
     (Inl (InsufficientFunds 800 5000 4200), after_transfer)"
  using transfer_insufficient_funds [of after_transfer "''ACC-000001''" alice_800
      "''ACC-000002''" bob_700 5000 None "''2024-01-04T08:00:00''" "''2024-01-04T08:00:01''"]
  by (simp add: after_transfer_accounts alice_800_def bob_700_def alice_def bob_def float_eval)




section \<open>Claims about validation and persistence\<close>

text \<open>
  C7 as stated fails: on an inactive account of the first bank, \<^verbatim>\<open>deposit(-50)\<close> and
  \<^verbatim>\<open>withdraw(-50)\<close> raise \<^verbatim>\<open>AccountInactiveError\<close>, not the error for an invalid amount:
  the account's state is checked first.
\<close>

theorem nonpositive_amount_counterexample:
  "\<not> is_active (charlie\<lparr>is_active := False\<rparr>) \<and> (- 50 :: real) \<le> 0 \<and>
   deposit (charlie\<lparr>is_active := False\<rparr>) (- 50) None ''2024-01-02T10:00:00'' =
     (Inl (AccountInactiveError ''ACC-000001''), charlie\<lparr>is_active := False\<rparr>) \<and>
   withdraw (charlie\<lparr>is_active := False\<rparr>) (- 50) None ''2024-01-02T10:00:00'' =
     (Inl (AccountInactiveError ''ACC-000001''), charlie\<lparr>is_active := False\<rparr>)"
  by (simp add: deposit_inactive withdraw_inactive) (simp add: charlie_def)

text \<open>
  C7, amended. For every amount \<^verbatim>\<open><= 0\<close>, \<^verbatim>\<open>deposit\<close> and \<^verbatim>\<open>withdraw\<close> raise
  \<^verbatim>\<open>NegativeAmountError\<close> and leave the account as it was, on every active account of the
  first bank and on every account of the persistent bank (which has no active flag); on
  an inactive account they raise \<^verbatim>\<open>AccountInactiveError\<close> and leave the account as it was.
\<close>

theorem nonpositive_amount_active:
  assumes "amt \<le> 0" and "is_active a" and "\<not> is_active b"
  shows "deposit a amt descr now = (Inl (NegativeAmountError amt ''deposit''), a) \<and>
         withdraw a amt descr now = (Inl (NegativeAmountError amt ''withdrawal''), a) \<and>
         p_deposit pa amt descr pnow = (Inl (P_NegativeAmountError amt), pa) \<and>
         p_withdraw pa amt descr pnow = (Inl (P_NegativeAmountError amt), pa) \<and>
         deposit b amt descr now = (Inl (AccountInactiveError (account_id b)), b) \<and>
         withdraw b amt descr now = (Inl (AccountInactiveError (account_id b)), b)"
  using assms
  by (simp add: deposit_invalid withdraw_invalid deposit_inactive withdraw_inactive
      p_deposit_def p_withdraw_def)

theorem nonpositive_amount_active_witness:
  "(- 50 :: real) \<le> 0 \<and> is_active charlie \<and> \<not> is_active (charlie\<lparr>is_active := False\<rparr>) \<and>
   deposit charlie (- 50) None ''2024-01-02T10:00:00'' =
     (Inl (NegativeAmountError (- 50) ''deposit''), charlie) \<and>
   withdraw charlie (- 50) None ''2024-01-02T10:00:00'' =
     (Inl (NegativeAmountError (- 50) ''withdrawal''), charlie) \<and>
   p_deposit p_alice (- 50) None ''2024-01-02T10:00:00'' = (Inl (P_NegativeAmountError (- 50)), p_alice) \<and>
   p_withdraw p_alice (- 50) None ''2024-01-02T10:00:00'' = (Inl (P_NegativeAmountError (- 50)), p_alice)"
  using nonpositive_amount_active [of "- 50" charlie "charlie\<lparr>is_active := False\<rparr>" None
      "''2024-01-02T10:00:00''" p_alice "''2024-01-02T10:00:00''"]
  by (simp add: charlie_def)

text \<open>
  C3. Saving a ledger state \<open>S\<close> (to a path that can be opened) and constructing a manager
  from the file gives \<open>S\<close> back: the same accounts under the same ids in the same order,
  each with its owner, balance, transaction log, creation time and transaction counter,
  and the same account counter. \<^verbatim>\<open>load_from_file\<close> on any manager with that data file
  replaces its accounts and counter by those of \<open>S\<close>.
\<close>

theorem save_load_round_trip:
  assumes "fs (p_data_file S) \<noteq> NotOpenable"
  shows "fst (pm_save_to_file S fs) = Inr () \<and>
         new_AccountManager (p_data_file S) (snd (pm_save_to_file S fs)) = Inr S \<and>
         (p_data_file m = p_data_file S \<longrightarrow>
            pm_load_from_file m (snd (pm_save_to_file S fs)) =
              (Inr (), m\<lparr>p_accounts := p_accounts S, p_account_counter := p_account_counter S\<rparr>))"
proof -
  have 1: "fst (pm_save_to_file S fs) = Inr ()"
    using assms by (simp add: pm_save_to_file_def)
  have ex: "snd (pm_save_to_file S fs) (p_data_file S) \<noteq> NoFile"
    using assms by (simp add: pm_save_to_file_def)
  have "new_AccountManager (p_data_file S) (snd (pm_save_to_file S fs)) =
      Inr (\<lparr>p_accounts = p_accounts S, p_data_file = p_data_file S,
            p_account_counter = p_account_counter S\<rparr>)"
    unfolding new_AccountManager_def Let_def using ex
    by (simp add: load_saved [of fs S, OF assms])
  then have 2: "new_AccountManager (p_data_file S) (snd (pm_save_to_file S fs)) = Inr S"
    by simp
  show ?thesis using 1 2 load_saved [of fs S m, OF assms] by blast
qed

theorem save_load_round_trip_witness:
  "empty_disk (p_data_file p_demo_ledger) \<noteq> NotOpenable \<and>
   fst (pm_save_to_file p_demo_ledger empty_disk) = Inr () \<and>
   new_AccountManager ''accounts.json'' (snd (pm_save_to_file p_demo_ledger empty_disk)) =
     Inr p_demo_ledger \<and>
   p_data_file \<lparr>p_accounts = [], p_data_file = ''accounts.json'', p_account_counter = 0\<rparr> =
     p_data_file p_demo_ledger \<and>
   pm_load_from_file \<lparr>p_accounts = [], p_data_file = ''accounts.json'', p_account_counter = 0\<rparr>
       (snd (pm_save_to_file p_demo_ledger empty_disk)) =
     (Inr (), p_demo_ledger)"
  using save_load_round_trip [of empty_disk p_demo_ledger
      "\<lparr>p_accounts = [], p_data_file = ''accounts.json'', p_account_counter = 0\<rparr>"]
  by (simp add: empty_disk_def p_demo_ledger_def)

text \<open>
  C9 as stated fails: with no data file the constructed manager has an empty account map,
  and its account counter is 0, not 1.
\<close>

theorem missing_file_counterexample:
  "empty_disk ''accounts.json'' = NoFile \<and>
   new_AccountManager ''accounts.json'' empty_disk =
     Inr \<lparr>p_accounts = [], p_data_file = ''accounts.json'', p_account_counter = 0\<rparr> \<and>
   map_sum id p_account_counter (new_AccountManager ''accounts.json'' empty_disk) \<noteq> Inr 1"
  by (simp add: empty_disk_def new_AccountManager_def)

text \<open>
  C9, amended. When the data file is absent, constructing the manager does not fail and
  yields an empty account map and the account counter 0; \<^verbatim>\<open>load_from_file\<close> leaves that
  state as it is, and the first account created gets the id \<^verbatim>\<open>ACC-000001\<close>.
\<close>

theorem missing_file_gives_empty_ledger:
  assumes "fs path = NoFile"
  shows "new_AccountManager path fs =
           Inr \<lparr>p_accounts = [], p_data_file = path, p_account_counter = 0\<rparr> \<and>
         pm_load_from_file \<lparr>p_accounts = [], p_data_file = path, p_account_counter = 0\<rparr> fs =
           (Inr (), \<lparr>p_accounts = [], p_data_file = path, p_account_counter = 0\<rparr>) \<and>
         map_sum id p_account_id
           (fst (pm_create_account \<lparr>p_accounts = [], p_data_file = path, p_account_counter = 0\<rparr>
              owner_name 0 now_account now_txn fs)) = Inr ''ACC-000001''"
  using assms
  by (simp add: new_AccountManager_def pm_load_from_file_def pm_create_account_def
      pm_generate_account_id_def pm_save_to_file_def pm_put_account_def format_d_eval Let_def)

theorem missing_file_gives_empty_ledger_witness:
  "empty_disk ''accounts.json'' = NoFile \<and>
   new_AccountManager ''accounts.json'' empty_disk =
     Inr \<lparr>p_accounts = [], p_data_file = ''accounts.json'', p_account_counter = 0\<rparr> \<and>
   map_sum id p_account_id
     (fst (pm_create_account
        \<lparr>p_accounts = [], p_data_file = ''accounts.json'', p_account_counter = 0\<rparr>
        ''Alice'' 0 ''2024-01-01T09:00:00'' ''2024-01-01T09:00:01'' empty_disk)) = Inr ''ACC-000001''"
  using missing_file_gives_empty_ledger [of empty_disk "''accounts.json''" "''Alice''"
      "''2024-01-01T09:00:00''" "''2024-01-01T09:00:01''"]
  by (simp add: empty_disk_def)

end
